theory Spec2Isabelle
  imports Complex_Main
begin

section \<open>Fixed-timestep physics stepper (src/physics/PhysicsManager.ts)\<close>

text \<open>
  JavaScript numbers are modelled as exact reals: rounding of IEEE doubles, NaN and the
  infinities are outside the model. The external physics world is a value of an arbitrary
  type \<open>'w\<close>; its \<open>step()\<close> method is the parameter \<open>wstep\<close>. Console output is
  returned as a list of messages.
\<close>

text \<open>\<open>private fixedTimeStep: number = 1 / 60\<close>, never reassigned.\<close>

definition fixedTimeStep :: real where
  "fixedTimeStep = 1 / 60"

record 'w PhysicsManager =
  world :: "'w option"
  initialized :: bool
  accumulator :: real

text \<open>The field initialisers of the class.\<close>

definition new_PhysicsManager :: "'w PhysicsManager" where
  "new_PhysicsManager = \<lparr>world = None, initialized = False, accumulator = 0\<rparr>"

text \<open>\<open>init()\<close>: the freshly created world is the argument \<open>w\<close>.\<close>

definition init :: "'w \<Rightarrow> 'w PhysicsManager \<Rightarrow> 'w PhysicsManager" where
  "init w pm = (if initialized pm then pm else pm\<lparr>world := Some w, initialized := True\<rparr>)"


text \<open>
  The \<open>while\<close> loop of \<open>step\<close>, with the loop variables as arguments: the world, the
  accumulator and \<open>steps\<close>. It returns them together with the warnings printed. The body
  calls \<open>world.step()\<close>, subtracts the fixed step, increments \<open>steps\<close> and only then
  tests \<open>steps > 10\<close>.
\<close>

function step_loop ::
  "('w \<Rightarrow> 'w) \<Rightarrow> 'w \<Rightarrow> real \<Rightarrow> nat \<Rightarrow> 'w \<times> real \<times> nat \<times> string list" where
  "step_loop wstep w acc steps =
     (if acc \<ge> fixedTimeStep then
        (if steps + 1 > 10
         then (wstep w, 0, steps + 1, [''Physics step limit reached, clamping accumulator''])
         else step_loop wstep (wstep w) (acc - fixedTimeStep) (steps + 1))
      else (w, acc, steps, []))"
  by pat_completeness auto
termination
  by (relation "measure (\<lambda>(wstep, w, acc, steps). 11 - steps)") auto

text \<open>
  \<open>step(deltaTime)\<close> returns the interpolation alpha; the model returns with it the new
  manager, the number of \<open>world.step()\<close> calls made and the warnings printed.
\<close>

definition step ::
  "('w \<Rightarrow> 'w) \<Rightarrow> 'w PhysicsManager \<Rightarrow> real \<Rightarrow> real \<times> 'w PhysicsManager \<times> nat \<times> string list" where
  "step wstep pm deltaTime =
     (case world pm of
        None \<Rightarrow> (0, pm, 0, [])
      | Some w \<Rightarrow>
          (let clampedDelta = min deltaTime 0.25;
               acc = accumulator pm + clampedDelta
           in case step_loop wstep w acc 0 of
                (w', acc', steps, warnings) \<Rightarrow>
                  (acc' / fixedTimeStep,
                   pm\<lparr>world := Some w', accumulator := acc'\<rparr>, steps, warnings)))"


section \<open>Character controller (CharacterController, in src/input/KeyboardManager.ts)\<close>

text \<open>
  The controller is a record of the fields of \<open>this\<close> that the locomotion code reads and
  writes. The camera, the render interpolation buffers and the rotation of the visual model
  are written by \<open>update\<close> but read by none of the code modelled here, and are left out.
  Pending \<open>setTimeout\<close> callbacks are the list \<open>timers\<close> (delay in milliseconds and
  callback); sounds and particles requested are the list \<open>emitted\<close>.
\<close>

record vec3 =
  vx :: real
  vy :: real
  vz :: real

datatype jump_phase = none | start | loop | land

datatype timer_callback =
  JumpStartToLoop | JumpLandToNone | RollEnd | CrouchTransitionEnd

record config =
  WALK_SPEED :: real
  RUN_SPEED :: real
  ROTATION_SPEED :: real
  JUMP_FORCE :: real
  capsuleHeight :: real
  capsuleRadius :: real
  yPosition :: real
  enableFootstepAudio :: bool
  enableFootstepParticles :: bool

record keys =
  forward :: bool
  backward :: bool
  left :: bool
  right :: bool
  run :: bool
  jump :: bool
  crouch :: bool
  dance :: bool
  roll :: bool
  walkBackward :: bool

text \<open>The dynamic rigid body: what \<open>translation()\<close> and \<open>linvel()\<close> return.\<close>

record body =
  translation :: vec3
  linvel :: "vec3 option"

text \<open>The capsule collider attached to the body.\<close>

record capsule =
  halfHeight :: real
  radius :: real
  friction :: real
  restitution :: real

text \<open>
  The physics world as the controller sees it: the two ray queries, from an origin, along
  a direction, up to a length. A query throws, or returns \<open>null\<close> or a hit;
  \<open>raw_toi\<close> is the number found by \<open>hit.toi ?? hit.timeOfImpact ?? hit.time_of_impact\<close>
  when there is one, \<open>raw_normal\<close> the normal found by
  \<open>hit.normal ?? hit.normal1 ?? hit.normal2\<close>.
\<close>

record raw_hit =
  raw_toi :: "real option"
  raw_normal :: "vec3 option"

datatype ray_outcome = RayThrows | RayReturns "raw_hit option"

record physics_world =
  castRay :: "vec3 \<Rightarrow> vec3 \<Rightarrow> real \<Rightarrow> ray_outcome"
  castRayAndGetNormal :: "vec3 \<Rightarrow> vec3 \<Rightarrow> real \<Rightarrow> ray_outcome"

datatype error = RaycastError

text \<open>What \<open>castFootRay\<close> returns on a hit.\<close>

record foot_hit =
  hitToi :: real
  slopeFactor :: real
  point :: vec3
  normal :: vec3

datatype event = FootstepSound real | SpawnParticle foot_hit

text \<open>
  The per-foot fields (\<open>leftFootInitialized\<close>, \<open>prevLeftFootPosition\<close>,
  \<open>leftFootWasGrounded\<close>, \<open>leftFootPrevToi\<close> and the same for the right foot), which
  the source handles with two copies of the same code.
\<close>

record foot_track =
  footInitialized :: bool
  prevFootPosition :: vec3
  footWasGrounded :: bool
  footPrevToi :: real

record CharacterController =
  config :: config
  rigidBody :: "body option"
  collider :: "capsule option"
  currentCapsuleHalfHeight :: real
  currentCharacterYOffset :: real
  animationGroupY :: real
  actions :: "string list"
  currentAnimation :: string
  currentAction :: "string option"
  animationChangeCooldown :: real
  isGrounded :: bool
  wasGrounded :: bool
  jumpPhase :: jump_phase
  combatMode :: bool
  isAttacking :: bool
  isRolling :: bool
  isCrouching :: bool
  crouchTransitioning :: bool
  ceilingClearanceTimer :: real
  rollDirection :: "real option"
  rollSpeed :: "real option"
  characterRotationTarget :: real
  rotationTarget :: real
  keys :: keys
  jumpPressed :: bool
  rollPressed :: bool
  leftFoot :: foot_track
  rightFoot :: foot_track
  footstepCooldown :: real
  hasFootstepParticles :: bool
  timers :: "(nat \<times> timer_callback) list"
  emitted :: "event list"

definition zero_vec3 :: vec3 where
  "zero_vec3 = \<lparr>vx = 0, vy = 0, vz = 0\<rparr>"

definition default_config :: config where
  "default_config =
     \<lparr>WALK_SPEED = 1.8, RUN_SPEED = 4, ROTATION_SPEED = 0.5 * (pi / 180), JUMP_FORCE = 6,
      capsuleHeight = 1.4, capsuleRadius = 0.3, yPosition = - 0.99,
      enableFootstepAudio = True, enableFootstepParticles = True\<rparr>"

definition no_keys :: keys where
  "no_keys =
     \<lparr>forward = False, backward = False, left = False, right = False, run = False,
      jump = False, crouch = False, dance = False, roll = False, walkBackward = False\<rparr>"

definition new_foot_track :: foot_track where
  "new_foot_track =
     \<lparr>footInitialized = False, prevFootPosition = zero_vec3, footWasGrounded = False,
      footPrevToi = 1\<rparr>"

text \<open>The constructor, before the model has loaded (no animation clips, no particles).\<close>

definition new_CharacterController :: CharacterController where
  "new_CharacterController =
     \<lparr>config = default_config, rigidBody = None, collider = None,
      currentCapsuleHalfHeight = capsuleHeight default_config / 2,
      currentCharacterYOffset = yPosition default_config,
      animationGroupY = 0, actions = [], currentAnimation = ''idle'', currentAction = None,
      animationChangeCooldown = 0, isGrounded = True, wasGrounded = False, jumpPhase = none,
      combatMode = False, isAttacking = False, isRolling = False, isCrouching = False,
      crouchTransitioning = False, ceilingClearanceTimer = - 1, rollDirection = None,
      rollSpeed = None, characterRotationTarget = 0, rotationTarget = 0, keys = no_keys,
      jumpPressed = False, rollPressed = False, leftFoot = new_foot_track,
      rightFoot = new_foot_track, footstepCooldown = 0, hasFootstepParticles = False,
      timers = [], emitted = []\<rparr>"

text \<open>\<open>createPhysicsBody(position)\<close>: a body at rest with the standing capsule.\<close>

definition createPhysicsBody ::
  "physics_world option \<Rightarrow> vec3 \<Rightarrow> CharacterController \<Rightarrow> CharacterController" where
  "createPhysicsBody W position c =
     (case W of
        None \<Rightarrow> c
      | Some w \<Rightarrow>
          c\<lparr>rigidBody := Some \<lparr>translation = position, linvel = Some zero_vec3\<rparr>,
            collider := Some \<lparr>halfHeight = capsuleHeight (config c) / 2,
                              radius = capsuleRadius (config c),
                              friction = 0.5, restitution = 0\<rparr>\<rparr>)"

subsection \<open>Capsule resize\<close>

definition updateCapsuleCollider ::
  "physics_world option \<Rightarrow> real \<Rightarrow> CharacterController \<Rightarrow> CharacterController" where
  "updateCapsuleCollider W targetHalfHeight c =
     (case (rigidBody c, W, collider c) of
        (Some b, Some w, Some old) \<Rightarrow>
          (let currentPos = translation b;
               currentHalfHeight = currentCapsuleHalfHeight c
           in if \<bar>currentHalfHeight - targetHalfHeight\<bar> < 0.01 then c
              else
                (let heightDiff = currentHalfHeight - targetHalfHeight;
                     heightChange = currentHalfHeight - targetHalfHeight;
                     offset = currentCharacterYOffset c + heightChange
                 in c\<lparr>collider := Some \<lparr>halfHeight = targetHalfHeight,
                                          radius = capsuleRadius (config c),
                                          friction = 0.5, restitution = 0\<rparr>,
                       currentCapsuleHalfHeight := targetHalfHeight,
                       rigidBody := Some (b\<lparr>translation :=
                                             \<lparr>vx = vx currentPos,
                                              vy = vy currentPos - heightDiff,
                                              vz = vz currentPos\<rparr>\<rparr>),
                       currentCharacterYOffset := offset,
                       animationGroupY := offset\<rparr>))
      | _ \<Rightarrow> c)"


subsection \<open>Contact sensors\<close>

definition down :: vec3 where
  "down = \<lparr>vx = 0, vy = - 1, vz = 0\<rparr>"

definition up :: vec3 where
  "up = \<lparr>vx = 0, vy = 1, vz = 0\<rparr>"

text \<open>\<open>checkGroundedRapier\<close> has no \<open>try\<close>: what the ray query throws, it throws.\<close>

definition checkGroundedRapier ::
  "physics_world option \<Rightarrow> CharacterController \<Rightarrow> error + bool" where
  "checkGroundedRapier W c =
     (case (rigidBody c, W) of
        (Some b, Some w) \<Rightarrow>
          (let position = translation b;
               currentHalfHeight = currentCapsuleHalfHeight c;
               rayOrigin = \<lparr>vx = vx position,
                            vy = vy position - currentHalfHeight - capsuleRadius (config c) + 0.05,
                            vz = vz position\<rparr>;
               rayLength = 0.2
           in case castRay w rayOrigin down rayLength of
                RayThrows \<Rightarrow> Inl RaycastError
              | RayReturns None \<Rightarrow> Inr False
              | RayReturns (Some hit) \<Rightarrow>
                  (case raw_toi hit of
                     Some t \<Rightarrow> Inr (t \<le> rayLength)
                   | None \<Rightarrow> Inr False))
      | _ \<Rightarrow> Inr False)"

text \<open>\<open>checkCeilingClearance\<close> has no \<open>try\<close> either.\<close>

definition checkCeilingClearance ::
  "physics_world option \<Rightarrow> CharacterController \<Rightarrow> error + bool" where
  "checkCeilingClearance W c =
     (case (rigidBody c, W) of
        (Some b, Some w) \<Rightarrow>
          (let position = translation b;
               crouchHalfHeight = (capsuleHeight (config c) * 0.5) / 2;
               standingHalfHeight = capsuleHeight (config c) / 2;
               rayOrigin = \<lparr>vx = vx position,
                            vy = vy position + crouchHalfHeight + capsuleRadius (config c),
                            vz = vz position\<rparr>;
               safetyBuffer = 0.5;
               rayLength = standingHalfHeight - crouchHalfHeight + safetyBuffer
           in case castRay w rayOrigin up rayLength of
                RayThrows \<Rightarrow> Inl RaycastError
              | RayReturns hit \<Rightarrow> Inr (hit = None))
      | _ \<Rightarrow> Inr True)"

text \<open>
  \<open>castFootRay\<close> wraps the query in \<open>try\<close>/\<open>catch\<close> and returns \<open>null\<close> from the
  handler (the warning it prints is not recorded).
\<close>

definition castFootRay ::
  "physics_world option \<Rightarrow> CharacterController \<Rightarrow> vec3 \<Rightarrow> foot_hit option" where
  "castFootRay W c position =
     (case (W, rigidBody c) of
        (Some w, Some b) \<Rightarrow>
          (let rayOrigin = \<lparr>vx = vx position, vy = vy position + 0.05, vz = vz position\<rparr>;
               rayDirection = down;
               rayLength = 0.35
           in case castRayAndGetNormal w rayOrigin rayDirection rayLength of
                RayThrows \<Rightarrow> None
              | RayReturns None \<Rightarrow> None
              | RayReturns (Some hit) \<Rightarrow>
                  (case raw_toi hit of
                     None \<Rightarrow> None
                   | Some t \<Rightarrow>
                       if t \<le> rayLength then
                         (let n = (case raw_normal hit of None \<Rightarrow> up | Some hitNormal \<Rightarrow> hitNormal)
                          in Some \<lparr>hitToi = t,
                                   slopeFactor = 1 - max 0 (min 1 (vy n)),
                                   point = \<lparr>vx = vx rayOrigin + vx rayDirection * t,
                                            vy = vy rayOrigin + vy rayDirection * t,
                                            vz = vz rayOrigin + vz rayDirection * t\<rparr>,
                                   normal = n\<rparr>)
                       else None))
      | _ \<Rightarrow> None)"

subsection \<open>Animation and sound\<close>

definition animationMap :: "(string \<times> string) list" where
  "animationMap =
     [(''idle'', ''Idle_Loop''), (''walk'', ''Walk_Loop''), (''run'', ''Sprint_Loop''),
      (''walkBackwards'', ''Walk_Loop''), (''leftTurn'', ''Walk_Loop''),
      (''rightTurn'', ''Walk_Loop''), (''dance'', ''Dance_Loop''),
      (''jumpStart'', ''Jump_Start''), (''jumpLoop'', ''Jump_Loop''),
      (''jumpLand'', ''Jump_Land''), (''crouchIdle'', ''Crouch_Idle_Loop''),
      (''crouchWalk'', ''Crouch_Fwd_Loop''), (''swordIdle'', ''Sword_Idle''),
      (''swordAttack'', ''Sword_Attack''), (''swordAttackAlt'', ''Sword_Attack_RM''),
      (''roll'', ''Roll'')]"

definition priorityAnimations :: "string list" where
  "priorityAnimations = [''jumpStart'', ''jumpLoop'', ''jumpLand'', ''roll'']"

definition footstepAnimations :: "string list" where
  "footstepAnimations = [''walk'', ''run'', ''walkBackwards'', ''crouchWalk'']"

text \<open>\<open>actions\<close> holds the names of the clips loaded; a clip that is missing is skipped.\<close>

definition setAnimation :: "string \<Rightarrow> CharacterController \<Rightarrow> CharacterController" where
  "setAnimation animName c =
     (if currentAnimation c = animName then c
      else
        (let isPriority = (animName \<in> set priorityAnimations)
         in if \<not> isPriority \<and> animationChangeCooldown c > 0 then c
            else
              (let mappedName =
                     (case map_of animationMap animName of
                        Some m \<Rightarrow> m
                      | None \<Rightarrow> ''Idle_Loop'')
               in if mappedName \<notin> set (actions c) then c
                  else c\<lparr>currentAction := Some mappedName,
                         currentAnimation := animName,
                         animationChangeCooldown :=
                           (if isPriority then animationChangeCooldown c else 0.1)\<rparr>)))"

text \<open>
  \<open>playFootstepSound\<close>: the four sound paths are fixed, so the list is never empty; which
  clip is drawn at random is not modelled, the volume requested is.
\<close>

definition playFootstepSound :: "real \<Rightarrow> CharacterController \<Rightarrow> CharacterController" where
  "playFootstepSound volumeMultiplier c =
     (if \<not> enableFootstepAudio (config c) then c
      else c\<lparr>emitted := emitted c @ [FootstepSound (0.3 * volumeMultiplier)]\<rparr>)"

subsection \<open>Footsteps\<close>

text \<open>What one frame gives the controller from outside: the bones and the model.\<close>

record frame =
  leftFootBone :: "vec3 option"
  rightFootBone :: "vec3 option"
  characterWorldPosition :: vec3

text \<open>
  \<open>groundedFoot\<close> of \<open>updateFootsteps\<close>:
  \<open>typeof hitToi === "number" && hitToi < (slopeFactor > 0.4 ? 0.28 : 0.23)\<close>.
\<close>

definition groundedFoot :: "foot_hit option \<Rightarrow> bool" where
  "groundedFoot hit =
     (case hit of
        None \<Rightarrow> False
      | Some h \<Rightarrow> hitToi h < (if slopeFactor h > 0.4 then 0.28 else 0.23))"

text \<open>The motion heuristics of \<open>triggered\<close>.\<close>

definition footMotion :: "real \<Rightarrow> vec3 \<Rightarrow> vec3 \<Rightarrow> foot_hit option \<Rightarrow> bool" where
  "footMotion delta prev footWorldPosition hit =
     (let verticalVelocity = (vy footWorldPosition - vy prev) / max delta 0.0001;
          verticalDelta = vy prev - vy footWorldPosition;
          movementDelta = sqrt ((vx footWorldPosition - vx prev)\<^sup>2
                                + (vz footWorldPosition - vz prev)\<^sup>2);
          slope = (case hit of None \<Rightarrow> 0 | Some h \<Rightarrow> slopeFactor h)
      in verticalVelocity < - 0.02 \<or> verticalDelta > 0.006 \<or> slope > 0.35
         \<or> movementDelta > 0.02)"

text \<open>
  The code run for one foot in \<open>updateFootsteps\<close>, given the world position of its bone.
  It takes the foot's fields and the shared \<open>footstepCooldown\<close>, and returns them with
  \<open>leftHit\<close> (or \<open>rightHit\<close>): the hit when the footstep fired, \<open>null\<close> otherwise.
\<close>

definition process_foot ::
  "physics_world option \<Rightarrow> CharacterController \<Rightarrow> real \<Rightarrow> real \<Rightarrow> vec3 \<Rightarrow>
   foot_track \<times> real \<Rightarrow> (foot_track \<times> real) \<times> foot_hit option" where
  "process_foot W c delta finalCooldown footWorldPosition fc =
     (case fc of (ft, cooldown) \<Rightarrow>
        if \<not> footInitialized ft then
          ((ft\<lparr>prevFootPosition := footWorldPosition, footInitialized := True\<rparr>, cooldown), None)
        else
          (let hit = castFootRay W c footWorldPosition;
               grounded = groundedFoot hit;
               triggered = (grounded \<and> \<not> footWasGrounded ft \<and> cooldown \<le> 0
                            \<and> footMotion delta (prevFootPosition ft) footWorldPosition hit)
           in ((ft\<lparr>prevFootPosition := footWorldPosition,
                    footWasGrounded := grounded,
                    footPrevToi := (case hit of
                                      Some h \<Rightarrow> if grounded then hitToi h else 1
                                    | None \<Rightarrow> 1)\<rparr>,
                if triggered then finalCooldown else cooldown),
               if triggered then hit else None)))"

definition hit_list :: "foot_hit option \<Rightarrow> foot_hit list" where
  "hit_list hit = (case hit of None \<Rightarrow> [] | Some h \<Rightarrow> [h])"

text \<open>
  \<open>updateFootsteps(delta)\<close>; \<open>vel\<close> is what \<open>this.rigidBody.linvel()\<close> returns, which
  \<open>update\<close> has just read.
\<close>

definition updateFootsteps ::
  "physics_world option \<Rightarrow> frame \<Rightarrow> real \<Rightarrow> vec3 \<Rightarrow> CharacterController \<Rightarrow> CharacterController" where
  "updateFootsteps W fr delta vel c =
     (if currentAnimation c \<notin> set footstepAnimations \<or> \<not> isGrounded c
         \<or> jumpPhase c \<noteq> none \<or> isRolling c
      then c
      else
        (let horizontalSpeed = sqrt (vx vel * vx vel + vz vel * vz vel);
             isRunning = (horizontalSpeed > WALK_SPEED (config c) * 1.5);
             baseCooldown = (if isRunning then 0.2 else 0.25);
             speedFactor = min (horizontalSpeed / RUN_SPEED (config c)) 1.5;
             adjustedCooldown = baseCooldown / max speedFactor 0.5;
             minCooldown = (if isRunning then 0.12 else 0.18);
             finalCooldown = max adjustedCooldown minCooldown;
             l = (case leftFootBone fr of
                    None \<Rightarrow> ((leftFoot c, footstepCooldown c), None)
                  | Some p \<Rightarrow>
                      process_foot W c delta finalCooldown p (leftFoot c, footstepCooldown c));
             leftHit = snd l;
             r = (case rightFootBone fr of
                    None \<Rightarrow> ((rightFoot c, snd (fst l)), None)
                  | Some p \<Rightarrow>
                      process_foot W c delta finalCooldown p (rightFoot c, snd (fst l)));
             rightHit = snd r;
             c1 = c\<lparr>leftFoot := fst (fst l), rightFoot := fst (fst r),
                    footstepCooldown := snd (fst r)\<rparr>
         in if leftHit \<noteq> None \<or> rightHit \<noteq> None then
              (let volumeMultiplier =
                     (if isRunning then 1.2
                      else if currentAnimation c1 = ''crouchWalk'' then 0.7 else 1.0);
                   c2 = playFootstepSound volumeMultiplier c1
               in if enableFootstepParticles (config c2) \<and> hasFootstepParticles c2
                  then c2\<lparr>emitted := emitted c2
                                      @ map SpawnParticle (hit_list leftHit @ hit_list rightHit)\<rparr>
                  else c2)
            else c1))"

subsection \<open>Deferred callbacks\<close>

text \<open>The bodies of the \<open>setTimeout\<close> callbacks that \<open>update\<close> schedules.\<close>

fun fire :: "physics_world option \<Rightarrow> timer_callback \<Rightarrow> CharacterController \<Rightarrow> CharacterController" where
  "fire W JumpStartToLoop c =
     (if jumpPhase c = start then setAnimation ''jumpLoop'' (c\<lparr>jumpPhase := loop\<rparr>) else c)"
| "fire W JumpLandToNone c =
     (if jumpPhase c = land then c\<lparr>jumpPhase := none\<rparr> else c)"
| "fire W RollEnd c =
     (let c1 = c\<lparr>isRolling := False, rollDirection := None, rollSpeed := None\<rparr>;
          standingHalfHeight = capsuleHeight (config c1) / 2
      in updateCapsuleCollider W standingHalfHeight c1)"
| "fire W CrouchTransitionEnd c = c\<lparr>crouchTransitioning := False\<rparr>"

text \<open>A pending timer expires: it leaves the list and its callback runs.\<close>

definition timeout ::
  "physics_world option \<Rightarrow> nat \<times> timer_callback \<Rightarrow> CharacterController \<Rightarrow> CharacterController" where
  "timeout W t c = fire W (snd t) (c\<lparr>timers := remove1 t (timers c)\<rparr>)"

definition setTimeout :: "timer_callback \<Rightarrow> nat \<Rightarrow> CharacterController \<Rightarrow> CharacterController" where
  "setTimeout cb ms c = c\<lparr>timers := timers c @ [(ms, cb)]\<rparr>"

subsection \<open>Keyboard\<close>

text \<open>\<open>handleKeyDown\<close> and \<open>handleKeyUp\<close>, on the lower-cased \<open>e.key\<close>.\<close>

definition handleKeyDown :: "string \<Rightarrow> CharacterController \<Rightarrow> CharacterController" where
  "handleKeyDown k c =
     (if k \<in> {''w'', ''z'', ''arrowup''} then c\<lparr>keys := (keys c)\<lparr>forward := True\<rparr>\<rparr>
      else if k \<in> {''s'', ''arrowdown''} then c\<lparr>keys := (keys c)\<lparr>backward := True\<rparr>\<rparr>
      else if k \<in> {''a'', ''q'', ''arrowleft''} then c\<lparr>keys := (keys c)\<lparr>left := True\<rparr>\<rparr>
      else if k \<in> {''d'', ''arrowright''} then c\<lparr>keys := (keys c)\<lparr>right := True\<rparr>\<rparr>
      else if k = ''shift'' then c\<lparr>keys := (keys c)\<lparr>run := True\<rparr>\<rparr>
      else if k = '' '' then c\<lparr>keys := (keys c)\<lparr>jump := True\<rparr>\<rparr>
      else if k = ''control'' then c\<lparr>keys := (keys c)\<lparr>crouch := True\<rparr>\<rparr>
      else if k = ''e'' then c\<lparr>keys := (keys c)\<lparr>dance := True\<rparr>\<rparr>
      else if k \<in> {''alt'', ''f''} then c\<lparr>keys := (keys c)\<lparr>roll := True\<rparr>\<rparr>
      else if k = ''r'' then c\<lparr>combatMode := \<not> combatMode c\<rparr>
      else c)"

definition handleKeyUp :: "string \<Rightarrow> CharacterController \<Rightarrow> CharacterController" where
  "handleKeyUp k c =
     (if k \<in> {''w'', ''z'', ''arrowup''} then c\<lparr>keys := (keys c)\<lparr>forward := False\<rparr>\<rparr>
      else if k \<in> {''s'', ''arrowdown''} then c\<lparr>keys := (keys c)\<lparr>backward := False\<rparr>\<rparr>
      else if k \<in> {''a'', ''q'', ''arrowleft''} then c\<lparr>keys := (keys c)\<lparr>left := False\<rparr>\<rparr>
      else if k \<in> {''d'', ''arrowright''} then c\<lparr>keys := (keys c)\<lparr>right := False\<rparr>\<rparr>
      else if k = ''shift'' then c\<lparr>keys := (keys c)\<lparr>run := False\<rparr>\<rparr>
      else if k = '' '' then c\<lparr>keys := (keys c)\<lparr>jump := False\<rparr>\<rparr>
      else if k = ''control'' then c\<lparr>keys := (keys c)\<lparr>crouch := False\<rparr>\<rparr>
      else if k = ''e'' then c\<lparr>keys := (keys c)\<lparr>dance := False\<rparr>\<rparr>
      else if k \<in> {''alt'', ''f''} then c\<lparr>keys := (keys c)\<lparr>roll := False\<rparr>\<rparr>
      else c)"

subsection \<open>The per-frame update\<close>

text \<open>
  \<open>Math.atan2(y, x)\<close> on reals. \<open>update\<close> calls it on the components of
  \<open>movement\<close>, which are -1, 0 or 1 and not both 0.
\<close>

definition atan2 :: "real \<Rightarrow> real \<Rightarrow> real" where
  "atan2 b a =
     (if a > 0 then arctan (b / a)
      else if a < 0 \<and> b \<ge> 0 then arctan (b / a) + pi
      else if a < 0 then arctan (b / a) - pi
      else if b > 0 then pi / 2
      else if b < 0 then - (pi / 2)
      else 0)"

text \<open>
  The block under \<open>// Crouch logic\<close>: from \<open>this.keys.crouch\<close>, \<open>this.isCrouching\<close>,
  \<open>hasCeilingClearance\<close>, \<open>this.ceilingClearanceTimer\<close> and \<open>delta\<close> to the new
  timer and \<open>shouldBeCrouched\<close>.
\<close>

definition crouch_logic :: "bool \<Rightarrow> bool \<Rightarrow> bool \<Rightarrow> real \<Rightarrow> real \<Rightarrow> real \<times> bool" where
  "crouch_logic crouchKey crouching hasCeilingClearance timer delta =
     (let timer1 =
            (if crouchKey then - 1
             else if \<not> hasCeilingClearance \<and> crouching then 0
             else if hasCeilingClearance \<and> crouching \<and> timer \<ge> 0 then timer + delta
             else if \<not> crouching then - 1
             else timer);
          standUpDelay = 0.5
      in if crouchKey then (- 1, True)
         else if \<not> hasCeilingClearance then (timer1, True)
         else if timer1 \<ge> 0 \<and> timer1 < standUpDelay then (timer1, True)
         else (timer1, False))"

text \<open>
  The block under \<open>// Landing detection\<close>. \<open>vel\<close> is the local object read from the body
  at the top of \<open>update\<close> and written back at the end.
\<close>

definition landing_detection ::
  "physics_world option \<Rightarrow> frame \<Rightarrow> bool \<Rightarrow> CharacterController \<times> vec3 \<Rightarrow> CharacterController \<times> vec3" where
  "landing_detection W fr grounded cv =
     (case cv of (c, vel) \<Rightarrow>
        if \<not> wasGrounded c \<and> grounded then
          (let c1 = setAnimation ''jumpLand'' (c\<lparr>jumpPhase := land\<rparr>);
               vel1 = vel\<lparr>vx := vx vel * 0.2, vz := vz vel * 0.2\<rparr>;
               c2 = (if footstepCooldown c1 \<le> 0.05
                     then (playFootstepSound 1.0 c1)\<lparr>footstepCooldown := 0.25\<rparr>
                     else c1);
               c3 = (if enableFootstepParticles (config c2) \<and> hasFootstepParticles c2 then
                       (let feet =
                              (case leftFootBone fr of
                                 None \<Rightarrow> []
                               | Some p \<Rightarrow> hit_list (castFootRay W c2 p))
                              @ (case rightFootBone fr of
                                   None \<Rightarrow> []
                                 | Some p \<Rightarrow> hit_list (castFootRay W c2 p));
                            centre = (if feet = []
                                      then hit_list (castFootRay W c2 (characterWorldPosition fr))
                                      else feet);
                            landingHits =
                              (if centre = [] then
                                 (case rigidBody c2 of
                                    None \<Rightarrow> []
                                  | Some b \<Rightarrow>
                                      [\<lparr>hitToi = 0, slopeFactor = 0,
                                        point = \<lparr>vx = vx (translation b),
                                                 vy = vy (translation b)
                                                      - currentCapsuleHalfHeight c2
                                                      - capsuleRadius (config c2),
                                                 vz = vz (translation b)\<rparr>,
                                        normal = up\<rparr>])
                               else centre)
                        in c2\<lparr>emitted := emitted c2 @ map SpawnParticle landingHits\<rparr>)
                     else c2)
           in (setTimeout JumpLandToNone 300 c3, vel1))
        else (c, vel))"

text \<open>The block under \<open>// Roll input\<close>.\<close>

definition roll_input ::
  "physics_world option \<Rightarrow> bool \<Rightarrow> bool \<Rightarrow> CharacterController \<times> vec3 \<Rightarrow> CharacterController \<times> vec3" where
  "roll_input W grounded shouldBeCrouched cv =
     (case cv of (c, vel) \<Rightarrow>
        if roll (keys c) \<and> \<not> rollPressed c \<and> grounded \<and> \<not> shouldBeCrouched
           \<and> \<not> dance (keys c) \<and> \<not> isAttacking c \<and> \<not> isRolling c
        then
          (let c1 = setAnimation ''roll''
                      (c\<lparr>rollPressed := True, isRolling := True, jumpPhase := none\<rparr>);
               rollHalfHeight = capsuleRadius (config c1);
               c2 = updateCapsuleCollider W rollHalfHeight c1;
               speed = RUN_SPEED (config c2) * 1.2;
               facingRotation = rotationTarget c2 + characterRotationTarget c2;
               c3 = c2\<lparr>rollDirection := Some facingRotation, rollSpeed := Some speed\<rparr>;
               vel1 = vel\<lparr>vx := sin facingRotation * speed, vz := cos facingRotation * speed\<rparr>
           in (setTimeout RollEnd 800 c3, vel1))
        else if \<not> roll (keys c) then (c\<lparr>rollPressed := False\<rparr>, vel)
        else (c, vel))"

text \<open>The block under \<open>// Falling detection\<close>.\<close>

definition falling_detection :: "bool \<Rightarrow> bool \<Rightarrow> CharacterController \<Rightarrow> CharacterController" where
  "falling_detection grounded shouldBeCrouched c =
     (if \<not> grounded \<and> jumpPhase c = none \<and> \<not> shouldBeCrouched
         \<and> \<not> crouchTransitioning c \<and> \<not> isRolling c
      then setAnimation ''jumpLoop'' (c\<lparr>jumpPhase := loop\<rparr>)
      else c)"

text \<open>The block under \<open>// Update capsule on crouch state change\<close>.\<close>

definition crouch_state_change ::
  "physics_world option \<Rightarrow> bool \<Rightarrow> CharacterController \<Rightarrow> CharacterController" where
  "crouch_state_change W shouldBeCrouched c =
     (if shouldBeCrouched \<noteq> isCrouching c then
        (let standingHalfHeight = capsuleHeight (config c) / 2;
             crouchHalfHeight = (capsuleHeight (config c) * 0.5) / 2;
             c1 = setTimeout CrouchTransitionEnd 200
                    (c\<lparr>crouchTransitioning := True, jumpPhase := none\<rparr>);
             c2 = (if shouldBeCrouched then updateCapsuleCollider W crouchHalfHeight c1
                   else setAnimation ''idle'' (updateCapsuleCollider W standingHalfHeight c1))
         in c2\<lparr>isCrouching := shouldBeCrouched\<rparr>)
      else c)"

text \<open>
  The jump trigger, which the source writes twice: with directional input it also sets the
  horizontal velocity to the intended one (\<open>intended\<close> is then \<open>Some\<close> of it).
\<close>

definition jump_trigger ::
  "bool \<Rightarrow> (real \<times> real) option \<Rightarrow> CharacterController \<times> vec3 \<Rightarrow> CharacterController \<times> vec3" where
  "jump_trigger grounded intended cv =
     (case cv of (c, vel) \<Rightarrow>
        if jump (keys c) \<and> grounded \<and> \<not> jumpPressed c then
          (let vel1 = vel\<lparr>vy := JUMP_FORCE (config c)\<rparr>;
               vel2 = (case intended of
                         None \<Rightarrow> vel1
                       | Some (intendedVelX, intendedVelZ) \<Rightarrow>
                           vel1\<lparr>vx := intendedVelX, vz := intendedVelZ\<rparr>);
               c1 = setAnimation ''jumpStart'' (c\<lparr>jumpPressed := True, jumpPhase := start\<rparr>)
           in (setTimeout JumpStartToLoop 200 c1, vel2))
        else if \<not> jump (keys c) then (c\<lparr>jumpPressed := False\<rparr>, vel)
        else (c, vel))"

text \<open>
  \<open>movement.x\<close> and \<open>movement.z\<close> after \<open>// Movement input\<close>: the later assignment
  wins when opposite keys are held.
\<close>

definition movement_x :: "keys \<Rightarrow> real" where
  "movement_x k = (if right k then - 1 else if left k then 1 else 0)"

definition movement_z :: "keys \<Rightarrow> real" where
  "movement_z k = (if backward k then - 1 else if forward k then 1 else 0)"

text \<open>The value of \<open>speed\<close> after \<open>// Speed\<close>.\<close>

definition movement_speed :: "bool \<Rightarrow> CharacterController \<Rightarrow> real" where
  "movement_speed shouldBeCrouched c =
     (if shouldBeCrouched then WALK_SPEED (config c) * 0.5
      else if run (keys c) then RUN_SPEED (config c)
      else WALK_SPEED (config c))"

text \<open>The block under \<open>// Movement animations\<close>.\<close>

definition movement_animations ::
  "bool \<Rightarrow> bool \<Rightarrow> real \<Rightarrow> CharacterController \<Rightarrow> CharacterController" where
  "movement_animations grounded shouldBeCrouched speed c =
     (let isInJumpPhase = (jumpPhase c \<noteq> none)
      in if grounded \<and> \<not> isInJumpPhase \<and> \<not> dance (keys c) \<and> \<not> isAttacking c \<and> \<not> isRolling c
         then
           (if shouldBeCrouched then setAnimation ''crouchWalk'' c
            else if combatMode c then setAnimation ''swordIdle'' c
            else if speed = RUN_SPEED (config c) then setAnimation ''run'' c
            else setAnimation ''walk'' c)
         else c)"

text \<open>The block under \<open>// Idle animations\<close>.\<close>

definition idle_animations :: "bool \<Rightarrow> bool \<Rightarrow> CharacterController \<Rightarrow> CharacterController" where
  "idle_animations grounded shouldBeCrouched c =
     (let isInJumpPhaseIdle = (jumpPhase c \<noteq> none)
      in if grounded \<and> \<not> isInJumpPhaseIdle \<and> \<not> dance (keys c) \<and> \<not> isAttacking c
            \<and> \<not> isRolling c
         then
           (if shouldBeCrouched then setAnimation ''crouchIdle'' c
            else if combatMode c then setAnimation ''swordIdle'' c
            else setAnimation ''idle'' c)
         else c)"

text \<open>
  The damping under \<open>// No movement\<close>: both horizontal components are multiplied by
  0.85 and set to 0 when their magnitude is below 0.01.
\<close>

definition idle_damping :: "vec3 \<Rightarrow> vec3" where
  "idle_damping vel =
     (let dx = vx vel * 0.85;
          dz = vz vel * 0.85
      in vel\<lparr>vx := (if \<bar>dx\<bar> < 0.01 then 0 else dx),
             vz := (if \<bar>dz\<bar> < 0.01 then 0 else dz)\<rparr>)"

text \<open>
  From \<open>// Movement input\<close> to the end of the idle animations. \<open>movement.walkBackwardMode\<close>
  is set to \<open>false\<close> and never assigned again, so its branches are not taken.
\<close>

definition movement_input ::
  "bool \<Rightarrow> bool \<Rightarrow> CharacterController \<times> vec3 \<Rightarrow> CharacterController \<times> vec3" where
  "movement_input grounded shouldBeCrouched cv =
     (case cv of (c, vel) \<Rightarrow>
        (let mz = movement_z (keys c);
             mx = movement_x (keys c);
             c1 = (if mx \<noteq> 0
                   then c\<lparr>rotationTarget := rotationTarget c + ROTATION_SPEED (config c) * mx\<rparr>
                   else c);
             speed = movement_speed shouldBeCrouched c1
         in if mx \<noteq> 0 \<or> mz \<noteq> 0 then
              (let baseMovementAngle = atan2 mx mz;
                   movementRotation = rotationTarget c1 + baseMovementAngle;
                   intendedVelX = sin movementRotation * speed;
                   intendedVelZ = cos movementRotation * speed;
                   c2 = c1\<lparr>characterRotationTarget := atan2 mx mz\<rparr>;
                   vel1 = (if grounded \<and> jumpPhase c2 \<noteq> land \<and> \<not> isRolling c2
                           then vel\<lparr>vx := intendedVelX, vz := intendedVelZ\<rparr>
                           else vel);
                   j = jump_trigger grounded (Some (intendedVelX, intendedVelZ)) (c2, vel1)
               in (movement_animations grounded shouldBeCrouched speed (fst j), snd j))
            else
              (let vel1 = (if grounded \<and> \<not> isRolling c1 then idle_damping vel else vel);
                   j = jump_trigger grounded None (c1, vel1)
               in (idle_animations grounded shouldBeCrouched (fst j), snd j))))"

text \<open>The block under \<open>// Maintain roll velocity during roll\<close>.\<close>

definition roll_velocity :: "bool \<Rightarrow> CharacterController \<Rightarrow> vec3 \<Rightarrow> vec3" where
  "roll_velocity grounded c vel =
     (case (rollDirection c, rollSpeed c) of
        (Some d, Some s) \<Rightarrow>
          if isRolling c \<and> grounded then vel\<lparr>vx := sin d * s, vz := cos d * s\<rparr> else vel
      | _ \<Rightarrow> vel)"

text \<open>\<open>this.rigidBody.setLinvel(vel, true)\<close>.\<close>

definition setLinvel :: "vec3 \<Rightarrow> CharacterController \<Rightarrow> CharacterController" where
  "setLinvel vel c =
     (case rigidBody c of
        None \<Rightarrow> c
      | Some b \<Rightarrow> c\<lparr>rigidBody := Some (b\<lparr>linvel := Some vel\<rparr>)\<rparr>)"

text \<open>
  \<open>update\<close> from the crouch logic to the end of the movement code, once the two ray
  queries have returned: the controller and the local \<open>vel\<close> at that point.
\<close>

definition locomotion_steps ::
  "physics_world option \<Rightarrow> frame \<Rightarrow> real \<Rightarrow> bool \<Rightarrow> bool \<Rightarrow> vec3 \<Rightarrow>
   CharacterController \<Rightarrow> CharacterController \<times> vec3" where
  "locomotion_steps W fr delta grounded hasCeilingClearance vel c =
     (let cl = crouch_logic (crouch (keys c)) (isCrouching c) hasCeilingClearance
                 (ceilingClearanceTimer c) delta;
          shouldBeCrouched = snd cl;
          c1 = c\<lparr>ceilingClearanceTimer := fst cl\<rparr>;
          l = landing_detection W fr grounded (c1, vel);
          r = roll_input W grounded shouldBeCrouched l;
          c2 = falling_detection grounded shouldBeCrouched (fst r);
          c3 = c2\<lparr>wasGrounded := grounded\<rparr>;
          c4 = (if dance (keys c3) then setAnimation ''dance'' c3 else c3);
          c5 = crouch_state_change W shouldBeCrouched c4
      in movement_input grounded shouldBeCrouched (c5, snd r))"

text \<open>Then the roll velocity is enforced and \<open>vel\<close> is written to the body.\<close>

definition locomotion ::
  "physics_world option \<Rightarrow> frame \<Rightarrow> real \<Rightarrow> bool \<Rightarrow> bool \<Rightarrow> vec3 \<Rightarrow>
   CharacterController \<Rightarrow> CharacterController" where
  "locomotion W fr delta grounded hasCeilingClearance vel c =
     (let m = locomotion_steps W fr delta grounded hasCeilingClearance vel c;
          vel1 = roll_velocity grounded (fst m) (snd m)
      in setLinvel vel1 (fst m))"

text \<open>
  \<open>update(delta)\<close>. An exception thrown by a ray query leaves \<open>update\<close> at once: the
  result is then \<open>Inl\<close> of the error and of the controller as it stands at that point.
\<close>

definition update ::
  "physics_world option \<Rightarrow> frame \<Rightarrow> real \<Rightarrow> CharacterController \<Rightarrow>
   (error \<times> CharacterController) + CharacterController" where
  "update W fr delta c =
     (case rigidBody c of
        None \<Rightarrow> Inr c
      | Some b \<Rightarrow>
          (let c1 = c\<lparr>animationGroupY := currentCharacterYOffset c,
                      animationChangeCooldown := max (animationChangeCooldown c - delta) 0,
                      footstepCooldown := max (footstepCooldown c - delta) 0\<rparr>
           in case linvel b of
                None \<Rightarrow> Inr c1
              | Some vel \<Rightarrow>
                  (let c2 = updateFootsteps W fr delta vel c1
                   in case checkGroundedRapier W c2 of
                        Inl e \<Rightarrow> Inl (e, c2)
                      | Inr g \<Rightarrow>
                          (let grounded = (if crouchTransitioning c2 then True else g);
                               c3 = c2\<lparr>isGrounded := grounded\<rparr>
                           in case (if isCrouching c3 then checkCeilingClearance W c3
                                    else Inr True) of
                                Inl e \<Rightarrow> Inl (e, c3)
                              | Inr hasCeilingClearance \<Rightarrow>
                                  Inr (locomotion W fr delta grounded hasCeilingClearance
                                         vel c3)))))"

text \<open>
  The controller as \<open>update\<close> has it when the crouch logic starts: the model offset
  re-applied, the two cooldowns decremented, the footsteps processed and \<open>isGrounded\<close>
  assigned.
\<close>

definition sensed ::
  "physics_world option \<Rightarrow> frame \<Rightarrow> real \<Rightarrow> vec3 \<Rightarrow> bool \<Rightarrow> CharacterController \<Rightarrow>
   CharacterController" where
  "sensed W fr delta vel grounded c =
     (updateFootsteps W fr delta vel
        (c\<lparr>animationGroupY := currentCharacterYOffset c,
           animationChangeCooldown := max (animationChangeCooldown c - delta) 0,
           footstepCooldown := max (footstepCooldown c - delta) 0\<rparr>))
     \<lparr>isGrounded := grounded\<rparr>"

subsection \<open>Example worlds and controllers\<close>

text \<open>
  Concrete inputs for the examples below: a world whose only geometry is a horizontal floor
  at height 0, a world whose ray queries throw, and a controller standing on the floor
  (capsule bottom at height 0) right after \<open>createPhysicsBody\<close>.
\<close>

definition floor_ray :: "vec3 \<Rightarrow> vec3 \<Rightarrow> real \<Rightarrow> ray_outcome" where
  "floor_ray origin direction len =
     (if direction = down \<and> 0 \<le> vy origin \<and> vy origin \<le> len
      then RayReturns (Some \<lparr>raw_toi = Some (vy origin), raw_normal = Some up\<rparr>)
      else RayReturns None)"

definition floor_world :: physics_world where
  "floor_world = \<lparr>castRay = floor_ray, castRayAndGetNormal = floor_ray\<rparr>"

definition throwing_world :: physics_world where
  "throwing_world =
     \<lparr>castRay = (\<lambda>origin direction len. RayThrows),
      castRayAndGetNormal = (\<lambda>origin direction len. RayThrows)\<rparr>"

definition standing_controller :: "physics_world \<Rightarrow> CharacterController" where
  "standing_controller w =
     createPhysicsBody (Some w) \<lparr>vx = 0, vy = 1, vz = 0\<rparr> new_CharacterController"

text \<open>
  The controller in the middle of a roll that started on the floor facing direction 0 (the
  fields as the roll trigger sets them), the same controller after the physics step has
  carried its body into the air, and a falling controller that has just reached the floor.
\<close>

definition rolling_controller :: "physics_world \<Rightarrow> CharacterController" where
  "rolling_controller w =
     updateCapsuleCollider (Some w) 0.3
       ((standing_controller w)
          \<lparr>isRolling := True, rollDirection := Some 0, rollSpeed := Some 4.8,
           rollPressed := True, timers := [(800, RollEnd)]\<rparr>)"

definition airborne :: "CharacterController \<Rightarrow> CharacterController" where
  "airborne c =
     c\<lparr>rigidBody := Some \<lparr>translation = \<lparr>vx = 0, vy = 5, vz = 0\<rparr>,
                           linvel = Some \<lparr>vx = 1, vy = - 2, vz = 0\<rparr>\<rparr>\<rparr>"

definition landing_controller :: "physics_world \<Rightarrow> CharacterController" where
  "landing_controller w =
     (standing_controller w)
       \<lparr>rigidBody := Some \<lparr>translation = \<lparr>vx = 0, vy = 1, vz = 0\<rparr>,
                           linvel = Some \<lparr>vx = 1, vy = - 3, vz = 0\<rparr>\<rparr>,
        isGrounded := False, wasGrounded := False, jumpPhase := loop\<rparr>"

definition no_bones :: frame where
  "no_bones = \<lparr>leftFootBone = None, rightFootBone = None, characterWorldPosition = zero_vec3\<rparr>"

definition low_ceiling_ray :: "vec3 \<Rightarrow> vec3 \<Rightarrow> real \<Rightarrow> ray_outcome" where
  "low_ceiling_ray origin direction len =
     (if direction = up
      then RayReturns (Some \<lparr>raw_toi = Some 0.1, raw_normal = Some down\<rparr>)
      else floor_ray origin direction len)"

text \<open>The floor again, under a ceiling that every upward ray hits.\<close>

definition low_ceiling_world :: physics_world where
  "low_ceiling_world = \<lparr>castRay = low_ceiling_ray, castRayAndGetNormal = low_ceiling_ray\<rparr>"

subsection \<open>Sequences of frames\<close>

text \<open>
  What reaches the controller, in the order the browser delivers it: key events, animation
  frames (with the frame's bones and \<open>delta\<close>) and the expiry of a pending timer. The run
  stops at the first exception.
\<close>

datatype input_event =
  KeyDown string | KeyUp string | Frame frame real | Timeout "nat \<times> timer_callback"

fun run ::
  "physics_world option \<Rightarrow> CharacterController \<Rightarrow> input_event list \<Rightarrow>
   (error \<times> CharacterController) + CharacterController" where
  "run W c [] = Inr c"
| "run W c (KeyDown k # es) = run W (handleKeyDown k c) es"
| "run W c (KeyUp k # es) = run W (handleKeyUp k c) es"
| "run W c (Frame fr delta # es) =
     (case update W fr delta c of
        Inl e \<Rightarrow> Inl e
      | Inr c' \<Rightarrow> run W c' es)"
| "run W c (Timeout t # es) =
     (if t \<in> set (timers c) then run W (timeout W t c) es else run W c es)"





section \<open>Properties of the stepper\<close>

subsection \<open>The loop\<close>




subsection \<open>Claims about the stepper\<close>

text \<open>
  C1. The claim: one call of \<open>step\<close> advances the world by at most 10 fixed steps. The
  loop tests \<open>steps > 10\<close> after the body has already called \<open>world.step()\<close> and
  incremented \<open>steps\<close>, so the call made with a frame time of 0.25 s on a fresh,
  initialised manager calls \<open>world.step()\<close> eleven times before the cap fires; the
  accumulator is then reset to 0 and the warning is printed. The world here is a counter of
  the \<open>step()\<close> calls it has received.
\<close>

theorem step_quarter_second_eleven_world_steps:
  "step Suc (init (0::nat) new_PhysicsManager) 0.25 =
     (0, \<lparr>world = Some 11, initialized = True, accumulator = 0\<rparr>, 11,
      [''Physics step limit reached, clamping accumulator''])"
  by (simp add: step_def init_def new_PhysicsManager_def fixedTimeStep_def)




section \<open>Properties of the controller\<close>

subsection \<open>What each operation leaves unchanged\<close>

lemma setAnimation_keeps [simp]:
  "config (setAnimation a c) = config c"
  "rigidBody (setAnimation a c) = rigidBody c"
  "collider (setAnimation a c) = collider c"
  "currentCapsuleHalfHeight (setAnimation a c) = currentCapsuleHalfHeight c"
  "currentCharacterYOffset (setAnimation a c) = currentCharacterYOffset c"
  "animationGroupY (setAnimation a c) = animationGroupY c"
  "actions (setAnimation a c) = actions c"
  "isGrounded (setAnimation a c) = isGrounded c"
  "wasGrounded (setAnimation a c) = wasGrounded c"
  "jumpPhase (setAnimation a c) = jumpPhase c"
  "combatMode (setAnimation a c) = combatMode c"
  "isAttacking (setAnimation a c) = isAttacking c"
  "isRolling (setAnimation a c) = isRolling c"
  "isCrouching (setAnimation a c) = isCrouching c"
  "crouchTransitioning (setAnimation a c) = crouchTransitioning c"
  "ceilingClearanceTimer (setAnimation a c) = ceilingClearanceTimer c"
  "rollDirection (setAnimation a c) = rollDirection c"
  "rollSpeed (setAnimation a c) = rollSpeed c"
  "characterRotationTarget (setAnimation a c) = characterRotationTarget c"
  "rotationTarget (setAnimation a c) = rotationTarget c"
  "keys (setAnimation a c) = keys c"
  "jumpPressed (setAnimation a c) = jumpPressed c"
  "rollPressed (setAnimation a c) = rollPressed c"
  "leftFoot (setAnimation a c) = leftFoot c"
  "rightFoot (setAnimation a c) = rightFoot c"
  "footstepCooldown (setAnimation a c) = footstepCooldown c"
  "hasFootstepParticles (setAnimation a c) = hasFootstepParticles c"
  "timers (setAnimation a c) = timers c"
  "emitted (setAnimation a c) = emitted c"
  by (simp_all add: setAnimation_def Let_def)

lemma setTimeout_keeps [simp]:
  "config (setTimeout cb ms c) = config c"
  "rigidBody (setTimeout cb ms c) = rigidBody c"
  "collider (setTimeout cb ms c) = collider c"
  "currentCapsuleHalfHeight (setTimeout cb ms c) = currentCapsuleHalfHeight c"
  "currentCharacterYOffset (setTimeout cb ms c) = currentCharacterYOffset c"
  "animationGroupY (setTimeout cb ms c) = animationGroupY c"
  "actions (setTimeout cb ms c) = actions c"
  "currentAnimation (setTimeout cb ms c) = currentAnimation c"
  "currentAction (setTimeout cb ms c) = currentAction c"
  "animationChangeCooldown (setTimeout cb ms c) = animationChangeCooldown c"
  "isGrounded (setTimeout cb ms c) = isGrounded c"
  "wasGrounded (setTimeout cb ms c) = wasGrounded c"
  "jumpPhase (setTimeout cb ms c) = jumpPhase c"
  "combatMode (setTimeout cb ms c) = combatMode c"
  "isAttacking (setTimeout cb ms c) = isAttacking c"
  "isRolling (setTimeout cb ms c) = isRolling c"
  "isCrouching (setTimeout cb ms c) = isCrouching c"
  "crouchTransitioning (setTimeout cb ms c) = crouchTransitioning c"
  "ceilingClearanceTimer (setTimeout cb ms c) = ceilingClearanceTimer c"
  "rollDirection (setTimeout cb ms c) = rollDirection c"
  "rollSpeed (setTimeout cb ms c) = rollSpeed c"
  "characterRotationTarget (setTimeout cb ms c) = characterRotationTarget c"
  "rotationTarget (setTimeout cb ms c) = rotationTarget c"
  "keys (setTimeout cb ms c) = keys c"
  "jumpPressed (setTimeout cb ms c) = jumpPressed c"
  "rollPressed (setTimeout cb ms c) = rollPressed c"
  "leftFoot (setTimeout cb ms c) = leftFoot c"
  "rightFoot (setTimeout cb ms c) = rightFoot c"
  "footstepCooldown (setTimeout cb ms c) = footstepCooldown c"
  "hasFootstepParticles (setTimeout cb ms c) = hasFootstepParticles c"
  "emitted (setTimeout cb ms c) = emitted c"
  by (simp_all add: setTimeout_def)

lemma playFootstepSound_keeps [simp]:
  "config (playFootstepSound v c) = config c"
  "rigidBody (playFootstepSound v c) = rigidBody c"
  "collider (playFootstepSound v c) = collider c"
  "currentCapsuleHalfHeight (playFootstepSound v c) = currentCapsuleHalfHeight c"
  "currentCharacterYOffset (playFootstepSound v c) = currentCharacterYOffset c"
  "animationGroupY (playFootstepSound v c) = animationGroupY c"
  "actions (playFootstepSound v c) = actions c"
  "currentAnimation (playFootstepSound v c) = currentAnimation c"
  "currentAction (playFootstepSound v c) = currentAction c"
  "animationChangeCooldown (playFootstepSound v c) = animationChangeCooldown c"
  "isGrounded (playFootstepSound v c) = isGrounded c"
  "wasGrounded (playFootstepSound v c) = wasGrounded c"
  "jumpPhase (playFootstepSound v c) = jumpPhase c"
  "combatMode (playFootstepSound v c) = combatMode c"
  "isAttacking (playFootstepSound v c) = isAttacking c"
  "isRolling (playFootstepSound v c) = isRolling c"
  "isCrouching (playFootstepSound v c) = isCrouching c"
  "crouchTransitioning (playFootstepSound v c) = crouchTransitioning c"
  "ceilingClearanceTimer (playFootstepSound v c) = ceilingClearanceTimer c"
  "rollDirection (playFootstepSound v c) = rollDirection c"
  "rollSpeed (playFootstepSound v c) = rollSpeed c"
  "characterRotationTarget (playFootstepSound v c) = characterRotationTarget c"
  "rotationTarget (playFootstepSound v c) = rotationTarget c"
  "keys (playFootstepSound v c) = keys c"
  "jumpPressed (playFootstepSound v c) = jumpPressed c"
  "rollPressed (playFootstepSound v c) = rollPressed c"
  "leftFoot (playFootstepSound v c) = leftFoot c"
  "rightFoot (playFootstepSound v c) = rightFoot c"
  "footstepCooldown (playFootstepSound v c) = footstepCooldown c"
  "hasFootstepParticles (playFootstepSound v c) = hasFootstepParticles c"
  "timers (playFootstepSound v c) = timers c"
  by (simp_all add: playFootstepSound_def)

lemma updateCapsuleCollider_keeps [simp]:
  "config (updateCapsuleCollider W h c) = config c"
  "actions (updateCapsuleCollider W h c) = actions c"
  "currentAnimation (updateCapsuleCollider W h c) = currentAnimation c"
  "currentAction (updateCapsuleCollider W h c) = currentAction c"
  "animationChangeCooldown (updateCapsuleCollider W h c) = animationChangeCooldown c"
  "isGrounded (updateCapsuleCollider W h c) = isGrounded c"
  "wasGrounded (updateCapsuleCollider W h c) = wasGrounded c"
  "jumpPhase (updateCapsuleCollider W h c) = jumpPhase c"
  "combatMode (updateCapsuleCollider W h c) = combatMode c"
  "isAttacking (updateCapsuleCollider W h c) = isAttacking c"
  "isRolling (updateCapsuleCollider W h c) = isRolling c"
  "isCrouching (updateCapsuleCollider W h c) = isCrouching c"
  "crouchTransitioning (updateCapsuleCollider W h c) = crouchTransitioning c"
  "ceilingClearanceTimer (updateCapsuleCollider W h c) = ceilingClearanceTimer c"
  "rollDirection (updateCapsuleCollider W h c) = rollDirection c"
  "rollSpeed (updateCapsuleCollider W h c) = rollSpeed c"
  "characterRotationTarget (updateCapsuleCollider W h c) = characterRotationTarget c"
  "rotationTarget (updateCapsuleCollider W h c) = rotationTarget c"
  "keys (updateCapsuleCollider W h c) = keys c"
  "jumpPressed (updateCapsuleCollider W h c) = jumpPressed c"
  "rollPressed (updateCapsuleCollider W h c) = rollPressed c"
  "leftFoot (updateCapsuleCollider W h c) = leftFoot c"
  "rightFoot (updateCapsuleCollider W h c) = rightFoot c"
  "footstepCooldown (updateCapsuleCollider W h c) = footstepCooldown c"
  "hasFootstepParticles (updateCapsuleCollider W h c) = hasFootstepParticles c"
  "timers (updateCapsuleCollider W h c) = timers c"
  "emitted (updateCapsuleCollider W h c) = emitted c"
  by (simp_all add: updateCapsuleCollider_def Let_def split: option.splits)

lemma setLinvel_keeps [simp]:
  "config (setLinvel v c) = config c"
  "collider (setLinvel v c) = collider c"
  "currentCapsuleHalfHeight (setLinvel v c) = currentCapsuleHalfHeight c"
  "currentCharacterYOffset (setLinvel v c) = currentCharacterYOffset c"
  "animationGroupY (setLinvel v c) = animationGroupY c"
  "actions (setLinvel v c) = actions c"
  "currentAnimation (setLinvel v c) = currentAnimation c"
  "currentAction (setLinvel v c) = currentAction c"
  "animationChangeCooldown (setLinvel v c) = animationChangeCooldown c"
  "isGrounded (setLinvel v c) = isGrounded c"
  "wasGrounded (setLinvel v c) = wasGrounded c"
  "jumpPhase (setLinvel v c) = jumpPhase c"
  "combatMode (setLinvel v c) = combatMode c"
  "isAttacking (setLinvel v c) = isAttacking c"
  "isRolling (setLinvel v c) = isRolling c"
  "isCrouching (setLinvel v c) = isCrouching c"
  "crouchTransitioning (setLinvel v c) = crouchTransitioning c"
  "ceilingClearanceTimer (setLinvel v c) = ceilingClearanceTimer c"
  "rollDirection (setLinvel v c) = rollDirection c"
  "rollSpeed (setLinvel v c) = rollSpeed c"
  "characterRotationTarget (setLinvel v c) = characterRotationTarget c"
  "rotationTarget (setLinvel v c) = rotationTarget c"
  "keys (setLinvel v c) = keys c"
  "jumpPressed (setLinvel v c) = jumpPressed c"
  "rollPressed (setLinvel v c) = rollPressed c"
  "leftFoot (setLinvel v c) = leftFoot c"
  "rightFoot (setLinvel v c) = rightFoot c"
  "footstepCooldown (setLinvel v c) = footstepCooldown c"
  "hasFootstepParticles (setLinvel v c) = hasFootstepParticles c"
  "timers (setLinvel v c) = timers c"
  "emitted (setLinvel v c) = emitted c"
  by (simp_all add: setLinvel_def split: option.splits)

lemma updateFootsteps_keeps [simp]:
  "config (updateFootsteps W fr delta vel c) = config c"
  "rigidBody (updateFootsteps W fr delta vel c) = rigidBody c"
  "collider (updateFootsteps W fr delta vel c) = collider c"
  "currentCapsuleHalfHeight (updateFootsteps W fr delta vel c) = currentCapsuleHalfHeight c"
  "currentCharacterYOffset (updateFootsteps W fr delta vel c) = currentCharacterYOffset c"
  "animationGroupY (updateFootsteps W fr delta vel c) = animationGroupY c"
  "actions (updateFootsteps W fr delta vel c) = actions c"
  "currentAnimation (updateFootsteps W fr delta vel c) = currentAnimation c"
  "currentAction (updateFootsteps W fr delta vel c) = currentAction c"
  "animationChangeCooldown (updateFootsteps W fr delta vel c) = animationChangeCooldown c"
  "isGrounded (updateFootsteps W fr delta vel c) = isGrounded c"
  "wasGrounded (updateFootsteps W fr delta vel c) = wasGrounded c"
  "jumpPhase (updateFootsteps W fr delta vel c) = jumpPhase c"
  "combatMode (updateFootsteps W fr delta vel c) = combatMode c"
  "isAttacking (updateFootsteps W fr delta vel c) = isAttacking c"
  "isRolling (updateFootsteps W fr delta vel c) = isRolling c"
  "isCrouching (updateFootsteps W fr delta vel c) = isCrouching c"
  "crouchTransitioning (updateFootsteps W fr delta vel c) = crouchTransitioning c"
  "ceilingClearanceTimer (updateFootsteps W fr delta vel c) = ceilingClearanceTimer c"
  "rollDirection (updateFootsteps W fr delta vel c) = rollDirection c"
  "rollSpeed (updateFootsteps W fr delta vel c) = rollSpeed c"
  "characterRotationTarget (updateFootsteps W fr delta vel c) = characterRotationTarget c"
  "rotationTarget (updateFootsteps W fr delta vel c) = rotationTarget c"
  "keys (updateFootsteps W fr delta vel c) = keys c"
  "jumpPressed (updateFootsteps W fr delta vel c) = jumpPressed c"
  "rollPressed (updateFootsteps W fr delta vel c) = rollPressed c"
  "hasFootstepParticles (updateFootsteps W fr delta vel c) = hasFootstepParticles c"
  "timers (updateFootsteps W fr delta vel c) = timers c"
  by (simp_all add: updateFootsteps_def Let_def split: option.splits)

lemma landing_detection_keeps [simp]:
  "config (fst (landing_detection W fr g cv)) = config (fst cv)"
  "rigidBody (fst (landing_detection W fr g cv)) = rigidBody (fst cv)"
  "collider (fst (landing_detection W fr g cv)) = collider (fst cv)"
  "currentCapsuleHalfHeight (fst (landing_detection W fr g cv)) = currentCapsuleHalfHeight (fst cv)"
  "currentCharacterYOffset (fst (landing_detection W fr g cv)) = currentCharacterYOffset (fst cv)"
  "animationGroupY (fst (landing_detection W fr g cv)) = animationGroupY (fst cv)"
  "actions (fst (landing_detection W fr g cv)) = actions (fst cv)"
  "isGrounded (fst (landing_detection W fr g cv)) = isGrounded (fst cv)"
  "wasGrounded (fst (landing_detection W fr g cv)) = wasGrounded (fst cv)"
  "combatMode (fst (landing_detection W fr g cv)) = combatMode (fst cv)"
  "isAttacking (fst (landing_detection W fr g cv)) = isAttacking (fst cv)"
  "isRolling (fst (landing_detection W fr g cv)) = isRolling (fst cv)"
  "isCrouching (fst (landing_detection W fr g cv)) = isCrouching (fst cv)"
  "crouchTransitioning (fst (landing_detection W fr g cv)) = crouchTransitioning (fst cv)"
  "ceilingClearanceTimer (fst (landing_detection W fr g cv)) = ceilingClearanceTimer (fst cv)"
  "rollDirection (fst (landing_detection W fr g cv)) = rollDirection (fst cv)"
  "rollSpeed (fst (landing_detection W fr g cv)) = rollSpeed (fst cv)"
  "characterRotationTarget (fst (landing_detection W fr g cv)) = characterRotationTarget (fst cv)"
  "rotationTarget (fst (landing_detection W fr g cv)) = rotationTarget (fst cv)"
  "keys (fst (landing_detection W fr g cv)) = keys (fst cv)"
  "jumpPressed (fst (landing_detection W fr g cv)) = jumpPressed (fst cv)"
  "rollPressed (fst (landing_detection W fr g cv)) = rollPressed (fst cv)"
  "leftFoot (fst (landing_detection W fr g cv)) = leftFoot (fst cv)"
  "rightFoot (fst (landing_detection W fr g cv)) = rightFoot (fst cv)"
  "hasFootstepParticles (fst (landing_detection W fr g cv)) = hasFootstepParticles (fst cv)"
  by (simp_all add: landing_detection_def Let_def split: prod.splits option.splits)

lemma roll_input_keeps [simp]:
  "config (fst (roll_input W g s cv)) = config (fst cv)"
  "actions (fst (roll_input W g s cv)) = actions (fst cv)"
  "isGrounded (fst (roll_input W g s cv)) = isGrounded (fst cv)"
  "wasGrounded (fst (roll_input W g s cv)) = wasGrounded (fst cv)"
  "combatMode (fst (roll_input W g s cv)) = combatMode (fst cv)"
  "isAttacking (fst (roll_input W g s cv)) = isAttacking (fst cv)"
  "isCrouching (fst (roll_input W g s cv)) = isCrouching (fst cv)"
  "crouchTransitioning (fst (roll_input W g s cv)) = crouchTransitioning (fst cv)"
  "ceilingClearanceTimer (fst (roll_input W g s cv)) = ceilingClearanceTimer (fst cv)"
  "characterRotationTarget (fst (roll_input W g s cv)) = characterRotationTarget (fst cv)"
  "rotationTarget (fst (roll_input W g s cv)) = rotationTarget (fst cv)"
  "keys (fst (roll_input W g s cv)) = keys (fst cv)"
  "jumpPressed (fst (roll_input W g s cv)) = jumpPressed (fst cv)"
  "leftFoot (fst (roll_input W g s cv)) = leftFoot (fst cv)"
  "rightFoot (fst (roll_input W g s cv)) = rightFoot (fst cv)"
  "footstepCooldown (fst (roll_input W g s cv)) = footstepCooldown (fst cv)"
  "hasFootstepParticles (fst (roll_input W g s cv)) = hasFootstepParticles (fst cv)"
  "emitted (fst (roll_input W g s cv)) = emitted (fst cv)"
  by (simp_all add: roll_input_def Let_def split: prod.splits)

lemma falling_detection_keeps [simp]:
  "config (falling_detection g s c) = config c"
  "rigidBody (falling_detection g s c) = rigidBody c"
  "collider (falling_detection g s c) = collider c"
  "currentCapsuleHalfHeight (falling_detection g s c) = currentCapsuleHalfHeight c"
  "currentCharacterYOffset (falling_detection g s c) = currentCharacterYOffset c"
  "animationGroupY (falling_detection g s c) = animationGroupY c"
  "actions (falling_detection g s c) = actions c"
  "isGrounded (falling_detection g s c) = isGrounded c"
  "wasGrounded (falling_detection g s c) = wasGrounded c"
  "combatMode (falling_detection g s c) = combatMode c"
  "isAttacking (falling_detection g s c) = isAttacking c"
  "isRolling (falling_detection g s c) = isRolling c"
  "isCrouching (falling_detection g s c) = isCrouching c"
  "crouchTransitioning (falling_detection g s c) = crouchTransitioning c"
  "ceilingClearanceTimer (falling_detection g s c) = ceilingClearanceTimer c"
  "rollDirection (falling_detection g s c) = rollDirection c"
  "rollSpeed (falling_detection g s c) = rollSpeed c"
  "characterRotationTarget (falling_detection g s c) = characterRotationTarget c"
  "rotationTarget (falling_detection g s c) = rotationTarget c"
  "keys (falling_detection g s c) = keys c"
  "jumpPressed (falling_detection g s c) = jumpPressed c"
  "rollPressed (falling_detection g s c) = rollPressed c"
  "leftFoot (falling_detection g s c) = leftFoot c"
  "rightFoot (falling_detection g s c) = rightFoot c"
  "footstepCooldown (falling_detection g s c) = footstepCooldown c"
  "hasFootstepParticles (falling_detection g s c) = hasFootstepParticles c"
  "timers (falling_detection g s c) = timers c"
  "emitted (falling_detection g s c) = emitted c"
  by (simp_all add: falling_detection_def)

lemma crouch_state_change_keeps [simp]:
  "config (crouch_state_change W s c) = config c"
  "actions (crouch_state_change W s c) = actions c"
  "isGrounded (crouch_state_change W s c) = isGrounded c"
  "wasGrounded (crouch_state_change W s c) = wasGrounded c"
  "combatMode (crouch_state_change W s c) = combatMode c"
  "isAttacking (crouch_state_change W s c) = isAttacking c"
  "isRolling (crouch_state_change W s c) = isRolling c"
  "ceilingClearanceTimer (crouch_state_change W s c) = ceilingClearanceTimer c"
  "rollDirection (crouch_state_change W s c) = rollDirection c"
  "rollSpeed (crouch_state_change W s c) = rollSpeed c"
  "characterRotationTarget (crouch_state_change W s c) = characterRotationTarget c"
  "rotationTarget (crouch_state_change W s c) = rotationTarget c"
  "keys (crouch_state_change W s c) = keys c"
  "jumpPressed (crouch_state_change W s c) = jumpPressed c"
  "rollPressed (crouch_state_change W s c) = rollPressed c"
  "leftFoot (crouch_state_change W s c) = leftFoot c"
  "rightFoot (crouch_state_change W s c) = rightFoot c"
  "footstepCooldown (crouch_state_change W s c) = footstepCooldown c"
  "hasFootstepParticles (crouch_state_change W s c) = hasFootstepParticles c"
  "emitted (crouch_state_change W s c) = emitted c"
  by (simp_all add: crouch_state_change_def Let_def)

lemma jump_trigger_keeps [simp]:
  "config (fst (jump_trigger g i cv)) = config (fst cv)"
  "rigidBody (fst (jump_trigger g i cv)) = rigidBody (fst cv)"
  "collider (fst (jump_trigger g i cv)) = collider (fst cv)"
  "currentCapsuleHalfHeight (fst (jump_trigger g i cv)) = currentCapsuleHalfHeight (fst cv)"
  "currentCharacterYOffset (fst (jump_trigger g i cv)) = currentCharacterYOffset (fst cv)"
  "animationGroupY (fst (jump_trigger g i cv)) = animationGroupY (fst cv)"
  "actions (fst (jump_trigger g i cv)) = actions (fst cv)"
  "isGrounded (fst (jump_trigger g i cv)) = isGrounded (fst cv)"
  "wasGrounded (fst (jump_trigger g i cv)) = wasGrounded (fst cv)"
  "combatMode (fst (jump_trigger g i cv)) = combatMode (fst cv)"
  "isAttacking (fst (jump_trigger g i cv)) = isAttacking (fst cv)"
  "isRolling (fst (jump_trigger g i cv)) = isRolling (fst cv)"
  "isCrouching (fst (jump_trigger g i cv)) = isCrouching (fst cv)"
  "crouchTransitioning (fst (jump_trigger g i cv)) = crouchTransitioning (fst cv)"
  "ceilingClearanceTimer (fst (jump_trigger g i cv)) = ceilingClearanceTimer (fst cv)"
  "rollDirection (fst (jump_trigger g i cv)) = rollDirection (fst cv)"
  "rollSpeed (fst (jump_trigger g i cv)) = rollSpeed (fst cv)"
  "characterRotationTarget (fst (jump_trigger g i cv)) = characterRotationTarget (fst cv)"
  "rotationTarget (fst (jump_trigger g i cv)) = rotationTarget (fst cv)"
  "keys (fst (jump_trigger g i cv)) = keys (fst cv)"
  "rollPressed (fst (jump_trigger g i cv)) = rollPressed (fst cv)"
  "leftFoot (fst (jump_trigger g i cv)) = leftFoot (fst cv)"
  "rightFoot (fst (jump_trigger g i cv)) = rightFoot (fst cv)"
  "footstepCooldown (fst (jump_trigger g i cv)) = footstepCooldown (fst cv)"
  "hasFootstepParticles (fst (jump_trigger g i cv)) = hasFootstepParticles (fst cv)"
  "emitted (fst (jump_trigger g i cv)) = emitted (fst cv)"
  by (simp_all add: jump_trigger_def Let_def split: prod.splits option.splits)

lemma movement_animations_keeps [simp]:
  "config (movement_animations g s v c) = config c"
  "rigidBody (movement_animations g s v c) = rigidBody c"
  "collider (movement_animations g s v c) = collider c"
  "currentCapsuleHalfHeight (movement_animations g s v c) = currentCapsuleHalfHeight c"
  "currentCharacterYOffset (movement_animations g s v c) = currentCharacterYOffset c"
  "animationGroupY (movement_animations g s v c) = animationGroupY c"
  "actions (movement_animations g s v c) = actions c"
  "isGrounded (movement_animations g s v c) = isGrounded c"
  "wasGrounded (movement_animations g s v c) = wasGrounded c"
  "jumpPhase (movement_animations g s v c) = jumpPhase c"
  "combatMode (movement_animations g s v c) = combatMode c"
  "isAttacking (movement_animations g s v c) = isAttacking c"
  "isRolling (movement_animations g s v c) = isRolling c"
  "isCrouching (movement_animations g s v c) = isCrouching c"
  "crouchTransitioning (movement_animations g s v c) = crouchTransitioning c"
  "ceilingClearanceTimer (movement_animations g s v c) = ceilingClearanceTimer c"
  "rollDirection (movement_animations g s v c) = rollDirection c"
  "rollSpeed (movement_animations g s v c) = rollSpeed c"
  "characterRotationTarget (movement_animations g s v c) = characterRotationTarget c"
  "rotationTarget (movement_animations g s v c) = rotationTarget c"
  "keys (movement_animations g s v c) = keys c"
  "jumpPressed (movement_animations g s v c) = jumpPressed c"
  "rollPressed (movement_animations g s v c) = rollPressed c"
  "leftFoot (movement_animations g s v c) = leftFoot c"
  "rightFoot (movement_animations g s v c) = rightFoot c"
  "footstepCooldown (movement_animations g s v c) = footstepCooldown c"
  "hasFootstepParticles (movement_animations g s v c) = hasFootstepParticles c"
  "timers (movement_animations g s v c) = timers c"
  "emitted (movement_animations g s v c) = emitted c"
  by (simp_all add: movement_animations_def Let_def)

lemma idle_animations_keeps [simp]:
  "config (idle_animations g s c) = config c"
  "rigidBody (idle_animations g s c) = rigidBody c"
  "collider (idle_animations g s c) = collider c"
  "currentCapsuleHalfHeight (idle_animations g s c) = currentCapsuleHalfHeight c"
  "currentCharacterYOffset (idle_animations g s c) = currentCharacterYOffset c"
  "animationGroupY (idle_animations g s c) = animationGroupY c"
  "actions (idle_animations g s c) = actions c"
  "isGrounded (idle_animations g s c) = isGrounded c"
  "wasGrounded (idle_animations g s c) = wasGrounded c"
  "jumpPhase (idle_animations g s c) = jumpPhase c"
  "combatMode (idle_animations g s c) = combatMode c"
  "isAttacking (idle_animations g s c) = isAttacking c"
  "isRolling (idle_animations g s c) = isRolling c"
  "isCrouching (idle_animations g s c) = isCrouching c"
  "crouchTransitioning (idle_animations g s c) = crouchTransitioning c"
  "ceilingClearanceTimer (idle_animations g s c) = ceilingClearanceTimer c"
  "rollDirection (idle_animations g s c) = rollDirection c"
  "rollSpeed (idle_animations g s c) = rollSpeed c"
  "characterRotationTarget (idle_animations g s c) = characterRotationTarget c"
  "rotationTarget (idle_animations g s c) = rotationTarget c"
  "keys (idle_animations g s c) = keys c"
  "jumpPressed (idle_animations g s c) = jumpPressed c"
  "rollPressed (idle_animations g s c) = rollPressed c"
  "leftFoot (idle_animations g s c) = leftFoot c"
  "rightFoot (idle_animations g s c) = rightFoot c"
  "footstepCooldown (idle_animations g s c) = footstepCooldown c"
  "hasFootstepParticles (idle_animations g s c) = hasFootstepParticles c"
  "timers (idle_animations g s c) = timers c"
  "emitted (idle_animations g s c) = emitted c"
  by (simp_all add: idle_animations_def Let_def)

lemma movement_input_keeps [simp]:
  "config (fst (movement_input g s cv)) = config (fst cv)"
  "rigidBody (fst (movement_input g s cv)) = rigidBody (fst cv)"
  "collider (fst (movement_input g s cv)) = collider (fst cv)"
  "currentCapsuleHalfHeight (fst (movement_input g s cv)) = currentCapsuleHalfHeight (fst cv)"
  "currentCharacterYOffset (fst (movement_input g s cv)) = currentCharacterYOffset (fst cv)"
  "animationGroupY (fst (movement_input g s cv)) = animationGroupY (fst cv)"
  "actions (fst (movement_input g s cv)) = actions (fst cv)"
  "isGrounded (fst (movement_input g s cv)) = isGrounded (fst cv)"
  "wasGrounded (fst (movement_input g s cv)) = wasGrounded (fst cv)"
  "combatMode (fst (movement_input g s cv)) = combatMode (fst cv)"
  "isAttacking (fst (movement_input g s cv)) = isAttacking (fst cv)"
  "isRolling (fst (movement_input g s cv)) = isRolling (fst cv)"
  "isCrouching (fst (movement_input g s cv)) = isCrouching (fst cv)"
  "crouchTransitioning (fst (movement_input g s cv)) = crouchTransitioning (fst cv)"
  "ceilingClearanceTimer (fst (movement_input g s cv)) = ceilingClearanceTimer (fst cv)"
  "rollDirection (fst (movement_input g s cv)) = rollDirection (fst cv)"
  "rollSpeed (fst (movement_input g s cv)) = rollSpeed (fst cv)"
  "keys (fst (movement_input g s cv)) = keys (fst cv)"
  "rollPressed (fst (movement_input g s cv)) = rollPressed (fst cv)"
  "leftFoot (fst (movement_input g s cv)) = leftFoot (fst cv)"
  "rightFoot (fst (movement_input g s cv)) = rightFoot (fst cv)"
  "footstepCooldown (fst (movement_input g s cv)) = footstepCooldown (fst cv)"
  "hasFootstepParticles (fst (movement_input g s cv)) = hasFootstepParticles (fst cv)"
  "emitted (fst (movement_input g s cv)) = emitted (fst cv)"
  by (simp_all add: movement_input_def Let_def split: prod.splits)

lemma locomotion_steps_keeps [simp]:
  "config (fst (locomotion_steps W fr delta g h v c)) = config c"
  "actions (fst (locomotion_steps W fr delta g h v c)) = actions c"
  "isGrounded (fst (locomotion_steps W fr delta g h v c)) = isGrounded c"
  "combatMode (fst (locomotion_steps W fr delta g h v c)) = combatMode c"
  "isAttacking (fst (locomotion_steps W fr delta g h v c)) = isAttacking c"
  "keys (fst (locomotion_steps W fr delta g h v c)) = keys c"
  "leftFoot (fst (locomotion_steps W fr delta g h v c)) = leftFoot c"
  "rightFoot (fst (locomotion_steps W fr delta g h v c)) = rightFoot c"
  "hasFootstepParticles (fst (locomotion_steps W fr delta g h v c)) = hasFootstepParticles c"
  by (simp_all add: locomotion_steps_def Let_def)

lemma locomotion_fields [simp]:
  "config (locomotion W fr delta g h v c) = config (fst (locomotion_steps W fr delta g h v c))"
  "collider (locomotion W fr delta g h v c) = collider (fst (locomotion_steps W fr delta g h v c))"
  "currentCapsuleHalfHeight (locomotion W fr delta g h v c) = currentCapsuleHalfHeight (fst (locomotion_steps W fr delta g h v c))"
  "currentCharacterYOffset (locomotion W fr delta g h v c) = currentCharacterYOffset (fst (locomotion_steps W fr delta g h v c))"
  "animationGroupY (locomotion W fr delta g h v c) = animationGroupY (fst (locomotion_steps W fr delta g h v c))"
  "actions (locomotion W fr delta g h v c) = actions (fst (locomotion_steps W fr delta g h v c))"
  "currentAnimation (locomotion W fr delta g h v c) = currentAnimation (fst (locomotion_steps W fr delta g h v c))"
  "currentAction (locomotion W fr delta g h v c) = currentAction (fst (locomotion_steps W fr delta g h v c))"
  "animationChangeCooldown (locomotion W fr delta g h v c) = animationChangeCooldown (fst (locomotion_steps W fr delta g h v c))"
  "isGrounded (locomotion W fr delta g h v c) = isGrounded (fst (locomotion_steps W fr delta g h v c))"
  "wasGrounded (locomotion W fr delta g h v c) = wasGrounded (fst (locomotion_steps W fr delta g h v c))"
  "jumpPhase (locomotion W fr delta g h v c) = jumpPhase (fst (locomotion_steps W fr delta g h v c))"
  "combatMode (locomotion W fr delta g h v c) = combatMode (fst (locomotion_steps W fr delta g h v c))"
  "isAttacking (locomotion W fr delta g h v c) = isAttacking (fst (locomotion_steps W fr delta g h v c))"
  "isRolling (locomotion W fr delta g h v c) = isRolling (fst (locomotion_steps W fr delta g h v c))"
  "isCrouching (locomotion W fr delta g h v c) = isCrouching (fst (locomotion_steps W fr delta g h v c))"
  "crouchTransitioning (locomotion W fr delta g h v c) = crouchTransitioning (fst (locomotion_steps W fr delta g h v c))"
  "ceilingClearanceTimer (locomotion W fr delta g h v c) = ceilingClearanceTimer (fst (locomotion_steps W fr delta g h v c))"
  "rollDirection (locomotion W fr delta g h v c) = rollDirection (fst (locomotion_steps W fr delta g h v c))"
  "rollSpeed (locomotion W fr delta g h v c) = rollSpeed (fst (locomotion_steps W fr delta g h v c))"
  "characterRotationTarget (locomotion W fr delta g h v c) = characterRotationTarget (fst (locomotion_steps W fr delta g h v c))"
  "rotationTarget (locomotion W fr delta g h v c) = rotationTarget (fst (locomotion_steps W fr delta g h v c))"
  "keys (locomotion W fr delta g h v c) = keys (fst (locomotion_steps W fr delta g h v c))"
  "jumpPressed (locomotion W fr delta g h v c) = jumpPressed (fst (locomotion_steps W fr delta g h v c))"
  "rollPressed (locomotion W fr delta g h v c) = rollPressed (fst (locomotion_steps W fr delta g h v c))"
  "leftFoot (locomotion W fr delta g h v c) = leftFoot (fst (locomotion_steps W fr delta g h v c))"
  "rightFoot (locomotion W fr delta g h v c) = rightFoot (fst (locomotion_steps W fr delta g h v c))"
  "footstepCooldown (locomotion W fr delta g h v c) = footstepCooldown (fst (locomotion_steps W fr delta g h v c))"
  "hasFootstepParticles (locomotion W fr delta g h v c) = hasFootstepParticles (fst (locomotion_steps W fr delta g h v c))"
  "timers (locomotion W fr delta g h v c) = timers (fst (locomotion_steps W fr delta g h v c))"
  "emitted (locomotion W fr delta g h v c) = emitted (fst (locomotion_steps W fr delta g h v c))"
  by (simp_all add: locomotion_def Let_def)

lemma sensed_keeps [simp]:
  "config (sensed W fr delta vel g c) = config c"
  "rigidBody (sensed W fr delta vel g c) = rigidBody c"
  "collider (sensed W fr delta vel g c) = collider c"
  "currentCapsuleHalfHeight (sensed W fr delta vel g c) = currentCapsuleHalfHeight c"
  "currentCharacterYOffset (sensed W fr delta vel g c) = currentCharacterYOffset c"
  "actions (sensed W fr delta vel g c) = actions c"
  "currentAnimation (sensed W fr delta vel g c) = currentAnimation c"
  "currentAction (sensed W fr delta vel g c) = currentAction c"
  "wasGrounded (sensed W fr delta vel g c) = wasGrounded c"
  "jumpPhase (sensed W fr delta vel g c) = jumpPhase c"
  "combatMode (sensed W fr delta vel g c) = combatMode c"
  "isAttacking (sensed W fr delta vel g c) = isAttacking c"
  "isRolling (sensed W fr delta vel g c) = isRolling c"
  "isCrouching (sensed W fr delta vel g c) = isCrouching c"
  "crouchTransitioning (sensed W fr delta vel g c) = crouchTransitioning c"
  "ceilingClearanceTimer (sensed W fr delta vel g c) = ceilingClearanceTimer c"
  "rollDirection (sensed W fr delta vel g c) = rollDirection c"
  "rollSpeed (sensed W fr delta vel g c) = rollSpeed c"
  "characterRotationTarget (sensed W fr delta vel g c) = characterRotationTarget c"
  "rotationTarget (sensed W fr delta vel g c) = rotationTarget c"
  "keys (sensed W fr delta vel g c) = keys c"
  "jumpPressed (sensed W fr delta vel g c) = jumpPressed c"
  "rollPressed (sensed W fr delta vel g c) = rollPressed c"
  "hasFootstepParticles (sensed W fr delta vel g c) = hasFootstepParticles c"
  "timers (sensed W fr delta vel g c) = timers c"
  "isGrounded (sensed W fr delta vel g c) = g"
  by (simp_all add: sensed_def)

lemma updateCapsuleCollider_body:
  "rigidBody (updateCapsuleCollider W h c) = None \<longleftrightarrow> rigidBody c = None"
  "map_option linvel (rigidBody (updateCapsuleCollider W h c)) = map_option linvel (rigidBody c)"
  by (simp_all add: updateCapsuleCollider_def Let_def split: option.splits)

lemmas example_defs =
  standing_controller_def createPhysicsBody_def new_CharacterController_def default_config_def
  no_keys_def new_foot_track_def zero_vec3_def floor_world_def floor_ray_def no_bones_def
  down_def up_def throwing_world_def low_ceiling_world_def low_ceiling_ray_def
  rolling_controller_def airborne_def landing_controller_def

subsection \<open>Capsule resize\<close>






subsection \<open>The structure of update\<close>

lemma checkGroundedRapier_cong:
  "rigidBody c' = rigidBody c \<Longrightarrow> currentCapsuleHalfHeight c' = currentCapsuleHalfHeight c \<Longrightarrow>
   config c' = config c \<Longrightarrow> checkGroundedRapier W c' = checkGroundedRapier W c"
  by (simp add: checkGroundedRapier_def split: option.splits)

lemma checkCeilingClearance_cong:
  "rigidBody c' = rigidBody c \<Longrightarrow> config c' = config c \<Longrightarrow>
   checkCeilingClearance W c' = checkCeilingClearance W c"
  by (simp add: checkCeilingClearance_def split: option.splits)

lemma update_eq:
  assumes "rigidBody c = Some b" and "linvel b = Some v"
  shows "update W fr delta c =
     (case checkGroundedRapier W c of
        Inl e \<Rightarrow>
          Inl (e, updateFootsteps W fr delta v
                    (c\<lparr>animationGroupY := currentCharacterYOffset c,
                       animationChangeCooldown := max (animationChangeCooldown c - delta) 0,
                       footstepCooldown := max (footstepCooldown c - delta) 0\<rparr>))
      | Inr g \<Rightarrow>
          (case (if isCrouching c then checkCeilingClearance W c else Inr True) of
             Inl e \<Rightarrow> Inl (e, sensed W fr delta v (crouchTransitioning c \<or> g) c)
           | Inr h \<Rightarrow>
               Inr (locomotion W fr delta (crouchTransitioning c \<or> g) h v
                      (sensed W fr delta v (crouchTransitioning c \<or> g) c))))"
proof -
  let ?c1 = "c\<lparr>animationGroupY := currentCharacterYOffset c,
               animationChangeCooldown := max (animationChangeCooldown c - delta) 0,
               footstepCooldown := max (footstepCooldown c - delta) 0\<rparr>"
  let ?c2 = "updateFootsteps W fr delta v ?c1"
  have g: "checkGroundedRapier W ?c2 = checkGroundedRapier W c"
    by (rule checkGroundedRapier_cong) simp_all
  have h: "checkCeilingClearance W (?c2\<lparr>isGrounded := x\<rparr>) = checkCeilingClearance W c" for x
    by (rule checkCeilingClearance_cong) simp_all
  show ?thesis
    using assms
    by (simp add: update_def Let_def g h sensed_def split: sum.splits)
qed

lemma update_Inr:
  assumes "rigidBody c = Some b" and "linvel b = Some v"
    and "checkGroundedRapier W c = Inr g"
    and "(if isCrouching c then checkCeilingClearance W c else Inr True) = Inr h"
  shows "update W fr delta c =
           Inr (locomotion W fr delta (crouchTransitioning c \<or> g) h v
                  (sensed W fr delta v (crouchTransitioning c \<or> g) c))"
  using assms(3,4) by (simp add: update_eq[OF assms(1,2)])

lemma update_Inr_D:
  assumes "update W fr delta c = Inr c'" and "rigidBody c = Some b" and "linvel b = Some v"
  shows "\<exists>g h. checkGroundedRapier W c = Inr g
           \<and> (if isCrouching c then checkCeilingClearance W c else Inr True) = Inr h
           \<and> c' = locomotion W fr delta (crouchTransitioning c \<or> g) h v
                    (sensed W fr delta v (crouchTransitioning c \<or> g) c)"
  using assms(1) by (auto simp add: update_eq[OF assms(2,3)] split: sum.splits if_splits)

subsection \<open>Contact sensors\<close>

text \<open>
  C8. The claim: all three ray queries catch what the ray cast throws and report no hit.
  Only \<open>castFootRay\<close> does: on a world whose ray cast throws, it returns \<open>null\<close>, while
  \<open>checkGroundedRapier\<close> and \<open>checkCeilingClearance\<close> let the exception through, and
  so does \<open>update\<close>, which calls the grounded check outside any \<open>try\<close>.
\<close>

theorem raycast_exception_reaches_caller:
  "checkGroundedRapier (Some throwing_world) (standing_controller throwing_world)
     = Inl RaycastError
   \<and> checkCeilingClearance (Some throwing_world) (standing_controller throwing_world)
     = Inl RaycastError
   \<and> castFootRay (Some throwing_world) (standing_controller throwing_world) zero_vec3 = None
   \<and> map_sum fst (\<lambda>c. ()) (update (Some throwing_world) no_bones (1 / 60)
                               (standing_controller throwing_world))
     = Inl RaycastError"
proof -
  have b: "rigidBody (standing_controller throwing_world)
             = Some \<lparr>translation = \<lparr>vx = 0, vy = 1, vz = 0\<rparr>, linvel = Some zero_vec3\<rparr>"
    by (simp add: example_defs)
  have t: "castRay throwing_world origin direction len = RayThrows"
    "castRayAndGetNormal throwing_world origin direction len = RayThrows"
    for origin direction len
    by (simp_all add: throwing_world_def)
  have g: "checkGroundedRapier (Some throwing_world) (standing_controller throwing_world)
             = Inl RaycastError"
    by (simp add: checkGroundedRapier_def b t)
  have c: "checkCeilingClearance (Some throwing_world) (standing_controller throwing_world)
             = Inl RaycastError"
    by (simp add: checkCeilingClearance_def b t)
  have f: "castFootRay (Some throwing_world) (standing_controller throwing_world) zero_vec3 = None"
    by (simp add: castFootRay_def b t)
  have u: "map_sum fst (\<lambda>c. ()) (update (Some throwing_world) no_bones (1 / 60)
                               (standing_controller throwing_world)) = Inl RaycastError"
    by (simp add: update_eq[OF b] g)
  from g c f u show ?thesis by simp
qed

subsection \<open>Footsteps\<close>

lemma process_foot_uninitialized:
  "\<not> footInitialized ft \<Longrightarrow>
   process_foot W c delta finalCooldown p (ft, cooldown) =
     ((ft\<lparr>prevFootPosition := p, footInitialized := True\<rparr>, cooldown), None)"
  by (simp add: process_foot_def)

lemma castFootRay_grounded_Some:
  "groundedFoot hit \<Longrightarrow> hit \<noteq> None"
  by (cases hit) (simp_all add: groundedFoot_def)



lemma process_foot_cooldown:
  "snd (fst (process_foot W c delta finalCooldown p (ft, cooldown))) =
     (if snd (process_foot W c delta finalCooldown p (ft, cooldown)) \<noteq> None
      then finalCooldown else cooldown)"
  using castFootRay_grounded_Some[of "castFootRay W c p"]
  by (auto simp add: process_foot_def Let_def)




subsection \<open>Crouching\<close>






lemma crouch_state_change_isCrouching [simp]:
  "isCrouching (crouch_state_change W s c) = s"
  by (auto simp add: crouch_state_change_def Let_def)

lemma locomotion_steps_crouch [simp]:
  "isCrouching (fst (locomotion_steps W fr delta g h v c))
     = snd (crouch_logic (crouch (keys c)) (isCrouching c) h (ceilingClearanceTimer c) delta)"
  "ceilingClearanceTimer (fst (locomotion_steps W fr delta g h v c))
     = fst (crouch_logic (crouch (keys c)) (isCrouching c) h (ceilingClearanceTimer c) delta)"
  "wasGrounded (fst (locomotion_steps W fr delta g h v c)) = g"
  by (simp_all add: locomotion_steps_def Let_def)


lemma floor_grounded:
  "checkGroundedRapier (Some floor_world) (standing_controller floor_world) = Inr True"
  "checkGroundedRapier (Some low_ceiling_world) (standing_controller low_ceiling_world) = Inr True"
  by (simp_all add: checkGroundedRapier_def example_defs)

lemma standing_body:
  "rigidBody (standing_controller w)
     = Some \<lparr>translation = \<lparr>vx = 0, vy = 1, vz = 0\<rparr>, linvel = Some zero_vec3\<rparr>"
  by (simp add: standing_controller_def createPhysicsBody_def)

lemma standing_linvel:
  "linvel \<lparr>translation = \<lparr>vx = 0, vy = 1, vz = 0\<rparr>, linvel = Some zero_vec3\<rparr> = Some zero_vec3"
  by simp




subsection \<open>Effects of the blocks of update\<close>

lemma roll_input_isRolling:
  "isRolling (fst (roll_input W g s cv)) =
     (isRolling (fst cv) \<or> (roll (keys (fst cv)) \<and> \<not> rollPressed (fst cv) \<and> g \<and> \<not> s
        \<and> \<not> dance (keys (fst cv)) \<and> \<not> isAttacking (fst cv)))"
  by (cases cv) (auto simp add: roll_input_def Let_def)

lemma roll_input_quiet:
  "\<not> isRolling (fst (roll_input W g s cv)) \<Longrightarrow>
     jumpPhase (fst (roll_input W g s cv)) = jumpPhase (fst cv)
     \<and> timers (fst (roll_input W g s cv)) = timers (fst cv)
     \<and> rigidBody (fst (roll_input W g s cv)) = rigidBody (fst cv)
     \<and> snd (roll_input W g s cv) = snd cv"
  by (cases cv) (auto simp add: roll_input_def Let_def split: if_splits)

lemma roll_input_rolling:
  "isRolling (fst cv) \<Longrightarrow>
     isRolling (fst (roll_input W g s cv))
     \<and> jumpPhase (fst (roll_input W g s cv)) = jumpPhase (fst cv)
     \<and> rollDirection (fst (roll_input W g s cv)) = rollDirection (fst cv)
     \<and> rollSpeed (fst (roll_input W g s cv)) = rollSpeed (fst cv)
     \<and> rigidBody (fst (roll_input W g s cv)) = rigidBody (fst cv)
     \<and> timers (fst (roll_input W g s cv)) = timers (fst cv)
     \<and> snd (roll_input W g s cv) = snd cv"
  by (cases cv) (simp add: roll_input_def)

lemma roll_input_air: "\<not> g \<Longrightarrow> snd (roll_input W g s cv) = snd cv"
  by (cases cv) (simp add: roll_input_def)

lemma roll_input_body:
  "rigidBody (fst (roll_input W g s cv)) = None \<longleftrightarrow> rigidBody (fst cv) = None"
  by (cases cv) (simp add: roll_input_def Let_def updateCapsuleCollider_body)

lemma falling_detection_grounded: "g \<Longrightarrow> falling_detection g s c = c"
  by (simp add: falling_detection_def)

lemma crouch_state_change_same: "s = isCrouching c \<Longrightarrow> crouch_state_change W s c = c"
  by (simp add: crouch_state_change_def)

lemma crouch_state_change_body:
  "rigidBody (crouch_state_change W s c) = None \<longleftrightarrow> rigidBody c = None"
  by (simp add: crouch_state_change_def Let_def updateCapsuleCollider_body)

lemma jump_trigger_fires:
  "jump (keys (fst cv)) \<Longrightarrow> g \<Longrightarrow> \<not> jumpPressed (fst cv) \<Longrightarrow>
     jumpPhase (fst (jump_trigger g i cv)) = start
     \<and> timers (fst (jump_trigger g i cv)) = timers (fst cv) @ [(200, JumpStartToLoop)]
     \<and> vy (snd (jump_trigger g i cv)) = JUMP_FORCE (config (fst cv))"
  by (cases cv) (simp add: jump_trigger_def Let_def setTimeout_def split: option.splits)

lemma jump_trigger_quiet:
  "\<not> (jump (keys (fst cv)) \<and> g \<and> \<not> jumpPressed (fst cv)) \<Longrightarrow>
     jumpPhase (fst (jump_trigger g i cv)) = jumpPhase (fst cv)
     \<and> timers (fst (jump_trigger g i cv)) = timers (fst cv)
     \<and> snd (jump_trigger g i cv) = snd cv"
  by (cases cv) (auto simp add: jump_trigger_def)

lemma movement_input_jump:
  "jump (keys (fst cv)) \<Longrightarrow> g \<Longrightarrow> \<not> jumpPressed (fst cv) \<Longrightarrow>
     jumpPhase (fst (movement_input g s cv)) = start
     \<and> timers (fst (movement_input g s cv)) = timers (fst cv) @ [(200, JumpStartToLoop)]
     \<and> vy (snd (movement_input g s cv)) = JUMP_FORCE (config (fst cv))"
  by (cases cv) (simp add: movement_input_def Let_def jump_trigger_fires)

lemma movement_input_quiet:
  "\<not> (jump (keys (fst cv)) \<and> g \<and> \<not> jumpPressed (fst cv)) \<Longrightarrow>
     jumpPhase (fst (movement_input g s cv)) = jumpPhase (fst cv)
     \<and> timers (fst (movement_input g s cv)) = timers (fst cv)
     \<and> snd (movement_input g s cv) =
         (if movement_x (keys (fst cv)) \<noteq> 0 \<or> movement_z (keys (fst cv)) \<noteq> 0 then
            (if g \<and> jumpPhase (fst cv) \<noteq> land \<and> \<not> isRolling (fst cv) then
               (snd cv)\<lparr>vx := sin (rotationTarget (fst cv)
                                    + ROTATION_SPEED (config (fst cv)) * movement_x (keys (fst cv))
                                    + atan2 (movement_x (keys (fst cv))) (movement_z (keys (fst cv))))
                               * movement_speed s (fst cv),
                         vz := cos (rotationTarget (fst cv)
                                    + ROTATION_SPEED (config (fst cv)) * movement_x (keys (fst cv))
                                    + atan2 (movement_x (keys (fst cv))) (movement_z (keys (fst cv))))
                               * movement_speed s (fst cv)\<rparr>
             else snd cv)
          else (if g \<and> \<not> isRolling (fst cv) then idle_damping (snd cv) else snd cv))"
  apply (cases cv)
  apply (simp add: movement_input_def Let_def jump_trigger_quiet movement_speed_def)
  done

lemma movement_input_air: "\<not> g \<Longrightarrow> snd (movement_input g s cv) = snd cv"
  by (cases cv) (simp add: movement_input_def Let_def jump_trigger_quiet)

lemma landing_detection_effect:
  "\<not> wasGrounded (fst cv) \<Longrightarrow> g \<Longrightarrow>
     jumpPhase (fst (landing_detection W fr g cv)) = land
     \<and> timers (fst (landing_detection W fr g cv)) = timers (fst cv) @ [(300, JumpLandToNone)]
     \<and> snd (landing_detection W fr g cv) = (snd cv)\<lparr>vx := vx (snd cv) * 0.2, vz := vz (snd cv) * 0.2\<rparr>"
  by (cases cv) (simp add: landing_detection_def Let_def setTimeout_def)

lemma landing_detection_skip:
  "wasGrounded (fst cv) \<or> \<not> g \<Longrightarrow> landing_detection W fr g cv = cv"
  by (cases cv) (auto simp add: landing_detection_def)

lemma roll_velocity_rolling:
  "isRolling c \<Longrightarrow> g \<Longrightarrow> rollDirection c = Some d \<Longrightarrow> rollSpeed c = Some s \<Longrightarrow>
     roll_velocity g c v = v\<lparr>vx := sin d * s, vz := cos d * s\<rparr>"
  by (simp add: roll_velocity_def)

lemma roll_velocity_off: "\<not> isRolling c \<or> \<not> g \<Longrightarrow> roll_velocity g c v = v"
  by (auto simp add: roll_velocity_def split: option.splits)

lemma roll_velocity_vy: "vy (roll_velocity g c v) = vy v"
  by (simp add: roll_velocity_def split: option.splits)

lemma locomotion_steps_body:
  "rigidBody (fst (locomotion_steps W fr delta g h v c)) = None \<longleftrightarrow> rigidBody c = None"
  by (simp add: locomotion_steps_def Let_def crouch_state_change_body roll_input_body)

lemma locomotion_steps_isRolling:
  "isRolling (fst (locomotion_steps W fr delta g h v c)) =
     (isRolling c \<or> (roll (keys c) \<and> \<not> rollPressed c \<and> g
        \<and> \<not> snd (crouch_logic (crouch (keys c)) (isCrouching c) h (ceilingClearanceTimer c) delta)
        \<and> \<not> dance (keys c) \<and> \<not> isAttacking c))"
  by (simp add: locomotion_steps_def Let_def roll_input_isRolling)

lemma locomotion_steps_rolling:
  "isRolling c \<Longrightarrow>
     isRolling (fst (locomotion_steps W fr delta g h v c))
     \<and> rollDirection (fst (locomotion_steps W fr delta g h v c)) = rollDirection c
     \<and> rollSpeed (fst (locomotion_steps W fr delta g h v c)) = rollSpeed c"
  by (simp add: locomotion_steps_def Let_def roll_input_rolling)

lemma locomotion_steps_jump:
  "jump (keys c) \<Longrightarrow> g \<Longrightarrow> \<not> jumpPressed c \<Longrightarrow>
     jumpPhase (fst (locomotion_steps W fr delta g h v c)) = start
     \<and> (200, JumpStartToLoop) \<in> set (timers (fst (locomotion_steps W fr delta g h v c)))
     \<and> vy (snd (locomotion_steps W fr delta g h v c)) = JUMP_FORCE (config c)"
  by (simp add: locomotion_steps_def Let_def movement_input_jump)

lemma locomotion_steps_air:
  "\<not> g \<Longrightarrow> snd (locomotion_steps W fr delta g h v c) = v"
  by (simp add: locomotion_steps_def Let_def movement_input_air roll_input_air landing_detection_skip)

lemma locomotion_body:
  assumes "rigidBody c = Some b"
  shows "\<exists>b'. rigidBody (locomotion W fr delta g h v c) = Some b'
           \<and> linvel b' = Some (roll_velocity g (fst (locomotion_steps W fr delta g h v c))
                                  (snd (locomotion_steps W fr delta g h v c)))"
proof -
  from assms locomotion_steps_body[of W fr delta g h v c]
  obtain b0 where "rigidBody (fst (locomotion_steps W fr delta g h v c)) = Some b0"
    by auto
  then show ?thesis
    by (simp add: locomotion_def Let_def setLinvel_def)
qed

lemma locomotion_steps_land:
  assumes "\<not> wasGrounded c" and "g"
    and "\<not> isRolling (fst (locomotion_steps W fr delta g h v c))"
    and "snd (crouch_logic (crouch (keys c)) (isCrouching c) h (ceilingClearanceTimer c) delta)
           = isCrouching c"
    and "\<not> (jump (keys c) \<and> \<not> jumpPressed c)"
  shows "jumpPhase (fst (locomotion_steps W fr delta g h v c)) = land
     \<and> (300, JumpLandToNone) \<in> set (timers (fst (locomotion_steps W fr delta g h v c)))
     \<and> snd (locomotion_steps W fr delta g h v c) =
         (if movement_x (keys c) \<noteq> 0 \<or> movement_z (keys c) \<noteq> 0
          then v\<lparr>vx := vx v * 0.2, vz := vz v * 0.2\<rparr>
          else idle_damping (v\<lparr>vx := vx v * 0.2, vz := vz v * 0.2\<rparr>))"
proof -
  define cl where "cl = crouch_logic (crouch (keys c)) (isCrouching c) h (ceilingClearanceTimer c) delta"
  define c1 where "c1 = c\<lparr>ceilingClearanceTimer := fst cl\<rparr>"
  define l where "l = landing_detection W fr g (c1, v)"
  define r where "r = roll_input W g (snd cl) l"
  define c2 where "c2 = falling_detection g (snd cl) (fst r)"
  define c3 where "c3 = c2\<lparr>wasGrounded := g\<rparr>"
  define c4 where "c4 = (if dance (keys c3) then setAnimation ''dance'' c3 else c3)"
  define c5 where "c5 = crouch_state_change W (snd cl) c4"
  have m: "locomotion_steps W fr delta g h v c = movement_input g (snd cl) (c5, snd r)"
    by (simp add: locomotion_steps_def Let_def cl_def c1_def l_def r_def c2_def c3_def c4_def c5_def)
  have sbc: "snd cl = isCrouching c" using assms(4) by (simp add: cl_def)
  have "\<not> wasGrounded (fst (c1, v))" using assms(1) by (simp add: c1_def)
  from landing_detection_effect[OF this assms(2), of W fr]
  have l: "jumpPhase (fst l) = land" "timers (fst l) = timers c @ [(300, JumpLandToNone)]"
    "snd l = v\<lparr>vx := vx v * 0.2, vz := vz v * 0.2\<rparr>"
    by (simp_all add: l_def c1_def)
  have "\<not> isRolling (fst r)"
    using assms(3) by (simp add: m c5_def c4_def c3_def c2_def split: if_splits)
  from roll_input_quiet[of W g "snd cl" l] this
  have r: "jumpPhase (fst r) = land" "timers (fst r) = timers c @ [(300, JumpLandToNone)]"
    "snd r = v\<lparr>vx := vx v * 0.2, vz := vz v * 0.2\<rparr>" "\<not> isRolling (fst r)"
    using l by (simp_all add: r_def)
  have c2: "c2 = fst r" using assms(2) by (simp add: c2_def falling_detection_grounded)
  have c4: "jumpPhase c4 = land" "timers c4 = timers c @ [(300, JumpLandToNone)]"
    "isCrouching c4 = isCrouching c" "\<not> isRolling c4" "keys c4 = keys c"
    "jumpPressed c4 = jumpPressed c"
    using r by (simp_all add: c4_def c3_def c2 r_def l_def c1_def)
  have c5: "c5 = c4" using sbc c4(3) by (simp add: c5_def crouch_state_change_same)
  have "\<not> (jump (keys (fst (c5, snd r))) \<and> g \<and> \<not> jumpPressed (fst (c5, snd r)))"
    using assms(5) by (simp add: c5 c4)
  note q = movement_input_quiet[OF this, of "snd cl"]
  have j: "jumpPhase (fst (movement_input g (snd cl) (c5, snd r))) = land"
    using q by (simp add: c5 c4)
  have t: "timers (fst (movement_input g (snd cl) (c5, snd r))) = timers c @ [(300, JumpLandToNone)]"
    using q by (simp add: c5 c4)
  have s: "snd (movement_input g (snd cl) (c5, snd r)) =
         (if movement_x (keys c) \<noteq> 0 \<or> movement_z (keys c) \<noteq> 0
          then v\<lparr>vx := vx v * 0.2, vz := vz v * 0.2\<rparr>
          else idle_damping (v\<lparr>vx := vx v * 0.2, vz := vz v * 0.2\<rparr>))"
    using q assms(2) by (simp add: c5 c4 r)
  show ?thesis unfolding m using j t s by simp
qed

subsection \<open>Effects of update\<close>

lemma handleKeyDown_keeps [simp]:
  "config (handleKeyDown k c) = config c"
  "rigidBody (handleKeyDown k c) = rigidBody c"
  "collider (handleKeyDown k c) = collider c"
  "currentCapsuleHalfHeight (handleKeyDown k c) = currentCapsuleHalfHeight c"
  "currentCharacterYOffset (handleKeyDown k c) = currentCharacterYOffset c"
  "animationGroupY (handleKeyDown k c) = animationGroupY c"
  "actions (handleKeyDown k c) = actions c"
  "currentAnimation (handleKeyDown k c) = currentAnimation c"
  "currentAction (handleKeyDown k c) = currentAction c"
  "animationChangeCooldown (handleKeyDown k c) = animationChangeCooldown c"
  "isGrounded (handleKeyDown k c) = isGrounded c"
  "wasGrounded (handleKeyDown k c) = wasGrounded c"
  "jumpPhase (handleKeyDown k c) = jumpPhase c"
  "isAttacking (handleKeyDown k c) = isAttacking c"
  "isRolling (handleKeyDown k c) = isRolling c"
  "isCrouching (handleKeyDown k c) = isCrouching c"
  "crouchTransitioning (handleKeyDown k c) = crouchTransitioning c"
  "ceilingClearanceTimer (handleKeyDown k c) = ceilingClearanceTimer c"
  "rollDirection (handleKeyDown k c) = rollDirection c"
  "rollSpeed (handleKeyDown k c) = rollSpeed c"
  "characterRotationTarget (handleKeyDown k c) = characterRotationTarget c"
  "rotationTarget (handleKeyDown k c) = rotationTarget c"
  "jumpPressed (handleKeyDown k c) = jumpPressed c"
  "rollPressed (handleKeyDown k c) = rollPressed c"
  "leftFoot (handleKeyDown k c) = leftFoot c"
  "rightFoot (handleKeyDown k c) = rightFoot c"
  "footstepCooldown (handleKeyDown k c) = footstepCooldown c"
  "hasFootstepParticles (handleKeyDown k c) = hasFootstepParticles c"
  "timers (handleKeyDown k c) = timers c"
  "emitted (handleKeyDown k c) = emitted c"
  by (simp_all add: handleKeyDown_def)

lemma handleKeyUp_keeps [simp]:
  "config (handleKeyUp k c) = config c"
  "rigidBody (handleKeyUp k c) = rigidBody c"
  "collider (handleKeyUp k c) = collider c"
  "currentCapsuleHalfHeight (handleKeyUp k c) = currentCapsuleHalfHeight c"
  "currentCharacterYOffset (handleKeyUp k c) = currentCharacterYOffset c"
  "animationGroupY (handleKeyUp k c) = animationGroupY c"
  "actions (handleKeyUp k c) = actions c"
  "currentAnimation (handleKeyUp k c) = currentAnimation c"
  "currentAction (handleKeyUp k c) = currentAction c"
  "animationChangeCooldown (handleKeyUp k c) = animationChangeCooldown c"
  "isGrounded (handleKeyUp k c) = isGrounded c"
  "wasGrounded (handleKeyUp k c) = wasGrounded c"
  "jumpPhase (handleKeyUp k c) = jumpPhase c"
  "isAttacking (handleKeyUp k c) = isAttacking c"
  "isRolling (handleKeyUp k c) = isRolling c"
  "isCrouching (handleKeyUp k c) = isCrouching c"
  "crouchTransitioning (handleKeyUp k c) = crouchTransitioning c"
  "ceilingClearanceTimer (handleKeyUp k c) = ceilingClearanceTimer c"
  "rollDirection (handleKeyUp k c) = rollDirection c"
  "rollSpeed (handleKeyUp k c) = rollSpeed c"
  "characterRotationTarget (handleKeyUp k c) = characterRotationTarget c"
  "rotationTarget (handleKeyUp k c) = rotationTarget c"
  "jumpPressed (handleKeyUp k c) = jumpPressed c"
  "rollPressed (handleKeyUp k c) = rollPressed c"
  "leftFoot (handleKeyUp k c) = leftFoot c"
  "rightFoot (handleKeyUp k c) = rightFoot c"
  "footstepCooldown (handleKeyUp k c) = footstepCooldown c"
  "hasFootstepParticles (handleKeyUp k c) = hasFootstepParticles c"
  "timers (handleKeyUp k c) = timers c"
  "emitted (handleKeyUp k c) = emitted c"
  "combatMode (handleKeyUp k c) = combatMode c"
  by (simp_all add: handleKeyUp_def)

lemma update_result:
  assumes "update W fr delta c = Inr c'" and "rigidBody c = Some b" and "linvel b = Some v"
  shows "c' = locomotion W fr delta (isGrounded c')
                (isCrouching c \<longrightarrow> checkCeilingClearance W c = Inr True) v
                (sensed W fr delta v (isGrounded c') c)"
proof -
  from update_Inr_D[OF assms] obtain g h where
    h: "(if isCrouching c then checkCeilingClearance W c else Inr True) = Inr h"
    and c': "c' = locomotion W fr delta (crouchTransitioning c \<or> g) h v
                    (sensed W fr delta v (crouchTransitioning c \<or> g) c)"
    by blast
  have g: "isGrounded c' = (crouchTransitioning c \<or> g)"
    by (simp add: c')
  from h have "h = (isCrouching c \<longrightarrow> checkCeilingClearance W c = Inr True)"
    by (auto split: if_splits)
  with c' g show ?thesis by simp
qed

lemma update_written:
  assumes "update W fr delta c = Inr c'" and "rigidBody c = Some b" and "linvel b = Some v"
  shows "\<exists>b'. rigidBody c' = Some b'
           \<and> linvel b' = Some (roll_velocity (isGrounded c')
                 (fst (locomotion_steps W fr delta (isGrounded c')
                        (isCrouching c \<longrightarrow> checkCeilingClearance W c = Inr True) v
                        (sensed W fr delta v (isGrounded c') c)))
                 (snd (locomotion_steps W fr delta (isGrounded c')
                        (isCrouching c \<longrightarrow> checkCeilingClearance W c = Inr True) v
                        (sensed W fr delta v (isGrounded c') c))))"
proof -
  have "rigidBody (sensed W fr delta v (isGrounded c') c) = Some b"
    using assms(2) by simp
  from locomotion_body[OF this, of W fr delta "isGrounded c'"
      "isCrouching c \<longrightarrow> checkCeilingClearance W c = Inr True" v]
  show ?thesis
    using update_result[OF assms] by simp
qed

lemma update_steps_fields:
  assumes "update W fr delta c = Inr c'" and "rigidBody c = Some b" and "linvel b = Some v"
  shows "jumpPhase c' = jumpPhase (fst (locomotion_steps W fr delta (isGrounded c')
                        (isCrouching c \<longrightarrow> checkCeilingClearance W c = Inr True) v
                        (sensed W fr delta v (isGrounded c') c)))"
    and "timers c' = timers (fst (locomotion_steps W fr delta (isGrounded c')
                        (isCrouching c \<longrightarrow> checkCeilingClearance W c = Inr True) v
                        (sensed W fr delta v (isGrounded c') c)))"
    and "isRolling c' = isRolling (fst (locomotion_steps W fr delta (isGrounded c')
                        (isCrouching c \<longrightarrow> checkCeilingClearance W c = Inr True) v
                        (sensed W fr delta v (isGrounded c') c)))"
    and "rollDirection c' = rollDirection (fst (locomotion_steps W fr delta (isGrounded c')
                        (isCrouching c \<longrightarrow> checkCeilingClearance W c = Inr True) v
                        (sensed W fr delta v (isGrounded c') c)))"
    and "rollSpeed c' = rollSpeed (fst (locomotion_steps W fr delta (isGrounded c')
                        (isCrouching c \<longrightarrow> checkCeilingClearance W c = Inr True) v
                        (sensed W fr delta v (isGrounded c') c)))"
    and "isCrouching c' = isCrouching (fst (locomotion_steps W fr delta (isGrounded c')
                        (isCrouching c \<longrightarrow> checkCeilingClearance W c = Inr True) v
                        (sensed W fr delta v (isGrounded c') c)))"
    and "config c' = config c"
  using arg_cong[OF update_result[OF assms], of jumpPhase]
    arg_cong[OF update_result[OF assms], of timers]
    arg_cong[OF update_result[OF assms], of isRolling]
    arg_cong[OF update_result[OF assms], of rollDirection]
    arg_cong[OF update_result[OF assms], of rollSpeed]
    arg_cong[OF update_result[OF assms], of isCrouching]
    arg_cong[OF update_result[OF assms], of config]
  by simp_all

lemma update_rolling:
  assumes "update W fr delta c = Inr c'" and "rigidBody c = Some b" and "linvel b = Some v"
    and "isRolling c" and "rollDirection c = Some d" and "rollSpeed c = Some s"
  shows "isRolling c' \<and> rollDirection c' = Some d \<and> rollSpeed c' = Some s
    \<and> (\<exists>b'. rigidBody c' = Some b'
          \<and> (isGrounded c' \<longrightarrow> (\<exists>v'. linvel b' = Some v' \<and> vx v' = sin d * s \<and> vz v' = cos d * s)))"
proof -
  let ?g = "isGrounded c'"
  let ?h = "isCrouching c \<longrightarrow> checkCeilingClearance W c = Inr True"
  let ?m = "locomotion_steps W fr delta ?g ?h v (sensed W fr delta v ?g c)"
  have "isRolling (sensed W fr delta v ?g c)" using assms(4) by simp
  from locomotion_steps_rolling[OF this, of W fr delta ?g ?h v]
  have r: "isRolling (fst ?m)" "rollDirection (fst ?m) = Some d" "rollSpeed (fst ?m) = Some s"
    using assms(5,6) by simp_all
  from update_written[OF assms(1-3)] obtain b' where
    b': "rigidBody c' = Some b'" "linvel b' = Some (roll_velocity ?g (fst ?m) (snd ?m))"
    by blast
  have "?g \<longrightarrow> roll_velocity ?g (fst ?m) (snd ?m) = (snd ?m)\<lparr>vx := sin d * s, vz := cos d * s\<rparr>"
    using roll_velocity_rolling[OF r(1) _ r(2,3)] by blast
  with b' have "?g \<longrightarrow> (\<exists>v'. linvel b' = Some v' \<and> vx v' = sin d * s \<and> vz v' = cos d * s)"
    by simp
  with b'(1) r show ?thesis
    by (simp add: update_steps_fields[OF assms(1-3)])
qed


lemma block_timers:
  "timers (fst (landing_detection W fr g cv)) =
     timers (fst cv) @ (if \<not> wasGrounded (fst cv) \<and> g then [(300, JumpLandToNone)] else [])"
  "timers (fst (roll_input W g s cv)) =
     timers (fst cv) @ (if roll (keys (fst cv)) \<and> \<not> rollPressed (fst cv) \<and> g \<and> \<not> s
                          \<and> \<not> dance (keys (fst cv)) \<and> \<not> isAttacking (fst cv)
                          \<and> \<not> isRolling (fst cv)
                        then [(800, RollEnd)] else [])"
  "timers (crouch_state_change W s c) =
     timers c @ (if s \<noteq> isCrouching c then [(200, CrouchTransitionEnd)] else [])"
  "timers (fst (movement_input g s cv)) =
     timers (fst cv) @ (if jump (keys (fst cv)) \<and> g \<and> \<not> jumpPressed (fst cv)
                        then [(200, JumpStartToLoop)] else [])"
proof -
  show "timers (fst (landing_detection W fr g cv)) =
     timers (fst cv) @ (if \<not> wasGrounded (fst cv) \<and> g then [(300, JumpLandToNone)] else [])"
    using landing_detection_effect[of cv g W fr] landing_detection_skip[of cv g W fr]
    by auto
  show "timers (fst (roll_input W g s cv)) =
     timers (fst cv) @ (if roll (keys (fst cv)) \<and> \<not> rollPressed (fst cv) \<and> g \<and> \<not> s
                          \<and> \<not> dance (keys (fst cv)) \<and> \<not> isAttacking (fst cv)
                          \<and> \<not> isRolling (fst cv)
                        then [(800, RollEnd)] else [])"
    by (cases cv) (simp add: roll_input_def Let_def setTimeout_def)
  show "timers (crouch_state_change W s c) =
     timers c @ (if s \<noteq> isCrouching c then [(200, CrouchTransitionEnd)] else [])"
    by (simp add: crouch_state_change_def Let_def setTimeout_def)
  show "timers (fst (movement_input g s cv)) =
     timers (fst cv) @ (if jump (keys (fst cv)) \<and> g \<and> \<not> jumpPressed (fst cv)
                        then [(200, JumpStartToLoop)] else [])"
    using movement_input_jump[of cv g s] movement_input_quiet[of cv g s]
    by auto
qed

lemma locomotion_steps_timers_mono:
  "set (timers c) \<subseteq> set (timers (fst (locomotion_steps W fr delta g h v c)))"
  by (auto simp add: locomotion_steps_def Let_def block_timers)

lemma roll_input_trigger:
  assumes "roll (keys (fst cv))" and "\<not> rollPressed (fst cv)" and "g" and "\<not> s"
    and "\<not> dance (keys (fst cv))" and "\<not> isAttacking (fst cv)" and "\<not> isRolling (fst cv)"
  shows "rollDirection (fst (roll_input W g s cv))
           = Some (rotationTarget (fst cv) + characterRotationTarget (fst cv))
     \<and> rollSpeed (fst (roll_input W g s cv)) = Some (RUN_SPEED (config (fst cv)) * 1.2)
     \<and> (800, RollEnd) \<in> set (timers (fst (roll_input W g s cv)))"
  using assms by (cases cv) (simp add: roll_input_def Let_def setTimeout_def)

lemma locomotion_steps_roll_start:
  assumes "roll (keys c)" and "\<not> rollPressed c" and "g"
    and "\<not> snd (crouch_logic (crouch (keys c)) (isCrouching c) h (ceilingClearanceTimer c) delta)"
    and "\<not> dance (keys c)" and "\<not> isAttacking c" and "\<not> isRolling c"
  shows "rollDirection (fst (locomotion_steps W fr delta g h v c))
           = Some (rotationTarget c + characterRotationTarget c)
     \<and> rollSpeed (fst (locomotion_steps W fr delta g h v c)) = Some (RUN_SPEED (config c) * 1.2)
     \<and> (800, RollEnd) \<in> set (timers (fst (locomotion_steps W fr delta g h v c)))"
  using assms by (simp add: locomotion_steps_def Let_def roll_input_trigger block_timers)

lemma update_roll_start:
  assumes "update W fr delta c = Inr c'" and "rigidBody c = Some b" and "linvel b = Some v"
    and "\<not> isRolling c" and "roll (keys c)" and "\<not> rollPressed c" and "isGrounded c'"
    and "\<not> isCrouching c'" and "\<not> dance (keys c)" and "\<not> isAttacking c"
  shows "isRolling c'
    \<and> rollDirection c' = Some (rotationTarget c + characterRotationTarget c)
    \<and> rollSpeed c' = Some (RUN_SPEED (config c) * 1.2)
    \<and> (800, RollEnd) \<in> set (timers c')
    \<and> (\<exists>b' v'. rigidBody c' = Some b' \<and> linvel b' = Some v'
          \<and> vx v' = sin (rotationTarget c + characterRotationTarget c) * (RUN_SPEED (config c) * 1.2)
          \<and> vz v' = cos (rotationTarget c + characterRotationTarget c) * (RUN_SPEED (config c) * 1.2))"
proof -
  let ?g = "isGrounded c'"
  let ?h = "isCrouching c \<longrightarrow> checkCeilingClearance W c = Inr True"
  let ?S = "sensed W fr delta v ?g c"
  let ?m = "locomotion_steps W fr delta ?g ?h v ?S"
  note f = update_steps_fields[OF assms(1-3)]
  have sbc: "\<not> snd (crouch_logic (crouch (keys ?S)) (isCrouching ?S) ?h (ceilingClearanceTimer ?S) delta)"
    using assms(8) by (simp add: f(6))
  have pre: "roll (keys ?S)" "\<not> rollPressed ?S" "\<not> dance (keys ?S)" "\<not> isAttacking ?S"
    "\<not> isRolling ?S"
    using assms(4,5,6,9,10) by simp_all
  from locomotion_steps_roll_start[OF pre(1,2) assms(7) sbc pre(3,4,5), of W fr v]
  have r: "rollDirection (fst ?m) = Some (rotationTarget c + characterRotationTarget c)"
    "rollSpeed (fst ?m) = Some (RUN_SPEED (config c) * 1.2)"
    "(800, RollEnd) \<in> set (timers (fst ?m))"
    by simp_all
  have ir: "isRolling (fst ?m)"
    using pre assms(7) sbc by (simp add: locomotion_steps_isRolling)
  from update_written[OF assms(1-3)] obtain b' where
    b': "rigidBody c' = Some b'" "linvel b' = Some (roll_velocity ?g (fst ?m) (snd ?m))"
    by blast
  from roll_velocity_rolling[OF ir assms(7) r(1,2), of "snd ?m"] b'
  have "\<exists>b' v'. rigidBody c' = Some b' \<and> linvel b' = Some v'
          \<and> vx v' = sin (rotationTarget c + characterRotationTarget c) * (RUN_SPEED (config c) * 1.2)
          \<and> vz v' = cos (rotationTarget c + characterRotationTarget c) * (RUN_SPEED (config c) * 1.2)"
    by simp
  with ir r show ?thesis by (simp add: f)
qed

lemma update_airborne:
  assumes "update W fr delta c = Inr c'" and "rigidBody c = Some b" and "linvel b = Some v"
    and "\<not> isGrounded c'"
  shows "map_option linvel (rigidBody c') = Some (Some v)"
proof -
  from update_written[OF assms(1-3)] obtain b' where
    b': "rigidBody c' = Some b'"
      "linvel b' = Some (roll_velocity (isGrounded c')
                 (fst (locomotion_steps W fr delta (isGrounded c')
                        (isCrouching c \<longrightarrow> checkCeilingClearance W c = Inr True) v
                        (sensed W fr delta v (isGrounded c') c)))
                 (snd (locomotion_steps W fr delta (isGrounded c')
                        (isCrouching c \<longrightarrow> checkCeilingClearance W c = Inr True) v
                        (sensed W fr delta v (isGrounded c') c))))"
    by blast
  with assms(4) show ?thesis
    by (simp add: roll_velocity_off locomotion_steps_air)
qed

lemma update_jump:
  assumes "update W fr delta c = Inr c'" and "rigidBody c = Some b" and "linvel b = Some v"
    and "jump (keys c)" and "\<not> jumpPressed c" and "isGrounded c'"
  shows "jumpPhase c' = start \<and> (200, JumpStartToLoop) \<in> set (timers c')
    \<and> (\<exists>b' v'. rigidBody c' = Some b' \<and> linvel b' = Some v' \<and> vy v' = JUMP_FORCE (config c))"
proof -
  let ?g = "isGrounded c'"
  let ?h = "isCrouching c \<longrightarrow> checkCeilingClearance W c = Inr True"
  let ?S = "sensed W fr delta v ?g c"
  let ?m = "locomotion_steps W fr delta ?g ?h v ?S"
  note f = update_steps_fields[OF assms(1-3)]
  have pre: "jump (keys ?S)" "\<not> jumpPressed ?S" using assms(4,5) by simp_all
  from locomotion_steps_jump[OF pre(1) assms(6) pre(2), of W fr delta ?h v]
  have j: "jumpPhase (fst ?m) = start" "(200, JumpStartToLoop) \<in> set (timers (fst ?m))"
    "vy (snd ?m) = JUMP_FORCE (config c)"
    by simp_all
  from update_written[OF assms(1-3)] obtain b' where
    b': "rigidBody c' = Some b'" "linvel b' = Some (roll_velocity ?g (fst ?m) (snd ?m))"
    by blast
  have "vy (roll_velocity ?g (fst ?m) (snd ?m)) = JUMP_FORCE (config c)"
    by (simp add: roll_velocity_vy j)
  with b' j show ?thesis by (simp add: f)
qed

lemma update_land:
  assumes "update W fr delta c = Inr c'" and "rigidBody c = Some b" and "linvel b = Some v"
    and "\<not> wasGrounded c" and "isGrounded c'" and "\<not> isRolling c'"
    and "isCrouching c' = isCrouching c" and "\<not> (jump (keys c) \<and> \<not> jumpPressed c)"
  shows "jumpPhase c' = land \<and> (300, JumpLandToNone) \<in> set (timers c')
    \<and> map_option linvel (rigidBody c') =
        Some (Some (if movement_x (keys c) \<noteq> 0 \<or> movement_z (keys c) \<noteq> 0
                    then v\<lparr>vx := vx v * 0.2, vz := vz v * 0.2\<rparr>
                    else idle_damping (v\<lparr>vx := vx v * 0.2, vz := vz v * 0.2\<rparr>)))"
proof -
  let ?g = "isGrounded c'"
  let ?h = "isCrouching c \<longrightarrow> checkCeilingClearance W c = Inr True"
  let ?S = "sensed W fr delta v ?g c"
  let ?m = "locomotion_steps W fr delta ?g ?h v ?S"
  note f = update_steps_fields[OF assms(1-3)]
  have p1: "\<not> wasGrounded ?S" using assms(4) by simp
  have p3: "\<not> isRolling (fst ?m)" using assms(6) by (simp add: f)
  have p4: "snd (crouch_logic (crouch (keys ?S)) (isCrouching ?S) ?h (ceilingClearanceTimer ?S) delta)
              = isCrouching ?S"
    using assms(7) by (simp add: f(6))
  have p5: "\<not> (jump (keys ?S) \<and> \<not> jumpPressed ?S)" using assms(8) by simp
  from locomotion_steps_land[OF p1 assms(5) p3 p4 p5]
  have l: "jumpPhase (fst ?m) = land" "(300, JumpLandToNone) \<in> set (timers (fst ?m))"
    "snd ?m = (if movement_x (keys c) \<noteq> 0 \<or> movement_z (keys c) \<noteq> 0
                    then v\<lparr>vx := vx v * 0.2, vz := vz v * 0.2\<rparr>
                    else idle_damping (v\<lparr>vx := vx v * 0.2, vz := vz v * 0.2\<rparr>))"
    by simp_all
  from update_written[OF assms(1-3)] obtain b' where
    b': "rigidBody c' = Some b'" "linvel b' = Some (roll_velocity ?g (fst ?m) (snd ?m))"
    by blast
  have "roll_velocity ?g (fst ?m) (snd ?m) = snd ?m"
    using p3 by (simp add: roll_velocity_off)
  with b' l show ?thesis by (simp add: f)
qed

lemma timeout_jumpPhase:
  "jumpPhase (timeout W (ms, JumpStartToLoop) c) = (if jumpPhase c = start then loop else jumpPhase c)"
  "jumpPhase (timeout W (ms, JumpLandToNone) c) = (if jumpPhase c = land then none else jumpPhase c)"
  by (simp_all add: timeout_def)

subsection \<open>Facts about the example controllers\<close>

lemma standing_facts:
  "\<not> wasGrounded (standing_controller w)"
  "\<not> isRolling (standing_controller w)"
  "\<not> isCrouching (standing_controller w)"
  "\<not> crouchTransitioning (standing_controller w)"
  "\<not> isAttacking (standing_controller w)"
  "\<not> jumpPressed (standing_controller w)"
  "\<not> rollPressed (standing_controller w)"
  "keys (standing_controller w) = no_keys"
  "ceilingClearanceTimer (standing_controller w) = - 1"
  "currentCapsuleHalfHeight (standing_controller w) = 0.7"
  "config (standing_controller w) = default_config"
  "jumpPhase (standing_controller w) = none"
  by (simp_all add: standing_controller_def createPhysicsBody_def
      new_CharacterController_def default_config_def)

lemma key_facts:
  "keys (handleKeyDown ''w'' c) = (keys c)\<lparr>forward := True\<rparr>"
  "keys (handleKeyDown '' '' c) = (keys c)\<lparr>jump := True\<rparr>"
  "keys (handleKeyDown ''f'' c) = (keys c)\<lparr>roll := True\<rparr>"
  "keys (handleKeyDown ''control'' c) = (keys c)\<lparr>crouch := True\<rparr>"
  by (simp_all add: handleKeyDown_def)

lemma rolling_facts:
  "rigidBody (rolling_controller floor_world)
     = Some \<lparr>translation = \<lparr>vx = 0, vy = 0.6, vz = 0\<rparr>, linvel = Some zero_vec3\<rparr>"
  "isRolling (rolling_controller floor_world)"
  "rollDirection (rolling_controller floor_world) = Some 0"
  "rollSpeed (rolling_controller floor_world) = Some 4.8"
  "currentCapsuleHalfHeight (rolling_controller floor_world) = 0.3"
  "config (rolling_controller floor_world) = default_config"
  "\<not> crouchTransitioning (rolling_controller floor_world)"
  "\<not> isCrouching (rolling_controller floor_world)"
  by (simp_all add: rolling_controller_def standing_controller_def createPhysicsBody_def
      new_CharacterController_def default_config_def updateCapsuleCollider_def Let_def zero_vec3_def)

lemma floor_cast:
  "castRay floor_world = floor_ray" "castRayAndGetNormal floor_world = floor_ray"
  by (simp_all add: floor_world_def)

lemma rolling_grounded:
  "checkGroundedRapier (Some floor_world) (rolling_controller floor_world) = Inr True"
  by (simp add: checkGroundedRapier_def rolling_facts default_config_def floor_cast
      floor_ray_def down_def)

lemma airborne_facts:
  "rigidBody (airborne c)
     = Some \<lparr>translation = \<lparr>vx = 0, vy = 5, vz = 0\<rparr>, linvel = Some \<lparr>vx = 1, vy = - 2, vz = 0\<rparr>\<rparr>"
  "isRolling (airborne c) = isRolling c"
  "rollDirection (airborne c) = rollDirection c"
  "rollSpeed (airborne c) = rollSpeed c"
  "currentCapsuleHalfHeight (airborne c) = currentCapsuleHalfHeight c"
  "config (airborne c) = config c"
  "crouchTransitioning (airborne c) = crouchTransitioning c"
  "isCrouching (airborne c) = isCrouching c"
  by (simp_all add: airborne_def)

lemma airborne_not_grounded:
  "checkGroundedRapier (Some floor_world) (airborne (rolling_controller floor_world)) = Inr False"
  by (simp add: checkGroundedRapier_def airborne_facts rolling_facts default_config_def
      floor_cast floor_ray_def down_def)

subsection \<open>Rolling\<close>

text \<open>
  C4, as stated for every frame of a roll: when the character is not grounded in that frame,
  \<open>update\<close> writes back the velocity it read from the body. Here the roll vector is
  (sin 0 * 4.8, cos 0 * 4.8) = (0, 4.8) and the horizontal velocity written is (1, 0).
\<close>

theorem rolling_airborne_counterexample:
  "isRolling (airborne (rolling_controller floor_world))
   \<and> rollDirection (airborne (rolling_controller floor_world)) = Some 0
   \<and> rollSpeed (airborne (rolling_controller floor_world)) = Some 4.8
   \<and> map_sum fst (\<lambda>c'. (isRolling c', map_option linvel (rigidBody c')))
        (update (Some floor_world) no_bones (1 / 60) (airborne (rolling_controller floor_world)))
      = Inr (True, Some (Some \<lparr>vx = 1, vy = - 2, vz = 0\<rparr>))
   \<and> vx \<lparr>vx = 1, vy = - 2, vz = 0\<rparr> \<noteq> sin 0 * (4.8::real)"
proof -
  let ?c = "airborne (rolling_controller floor_world)"
  let ?v = "\<lparr>vx = 1, vy = - 2, vz = 0\<rparr>"
  let ?c' = "locomotion (Some floor_world) no_bones (1 / 60) False True ?v
               (sensed (Some floor_world) no_bones (1 / 60) ?v False ?c)"
  have b: "rigidBody ?c = Some \<lparr>translation = \<lparr>vx = 0, vy = 5, vz = 0\<rparr>, linvel = Some ?v\<rparr>"
    by (rule airborne_facts)
  have l: "linvel \<lparr>translation = \<lparr>vx = 0, vy = 5, vz = 0\<rparr>, linvel = Some ?v\<rparr> = Some ?v"
    by simp
  have r: "isRolling ?c" "rollDirection ?c = Some 0" "rollSpeed ?c = Some 4.8"
    by (simp_all add: airborne_facts rolling_facts)
  have h: "(if isCrouching ?c then checkCeilingClearance (Some floor_world) ?c else Inr True)
             = Inr True"
    by (simp add: airborne_facts rolling_facts)
  from update_Inr[OF b l airborne_not_grounded h, of no_bones "1 / 60"]
  have u: "update (Some floor_world) no_bones (1 / 60) ?c = Inr ?c'"
    by (simp add: airborne_facts rolling_facts)
  have g: "\<not> isGrounded ?c'" by simp
  from update_airborne[OF u b l g] update_rolling[OF u b l r] u r
  show ?thesis by simp
qed

text \<open>
  C4, amended. For every call of \<open>update\<close> made while a roll is active: the roll stays
  active with the same captured direction and speed, and when the character is grounded in
  that frame the horizontal velocity written to the body is exactly the captured roll vector
  (sin d * s, cos d * s), whatever keys are held. In the frame that starts a roll, the
  direction captured is the facing \<open>rotationTarget + characterRotationTarget\<close>, the speed is
  1.2 * RUN_SPEED, the end of the roll is scheduled after 800 ms and the velocity written is
  that vector.
\<close>

theorem roll_velocity_kept_while_grounded:
  assumes "update W fr delta c = Inr c'" and "rigidBody c = Some b" and "linvel b = Some v"
  shows "(isRolling c \<and> rollDirection c = Some d \<and> rollSpeed c = Some s \<longrightarrow>
            isRolling c' \<and> rollDirection c' = Some d \<and> rollSpeed c' = Some s
            \<and> (\<exists>b'. rigidBody c' = Some b'
                  \<and> (isGrounded c' \<longrightarrow>
                       (\<exists>v'. linvel b' = Some v' \<and> vx v' = sin d * s \<and> vz v' = cos d * s))))
    \<and> (\<not> isRolling c \<and> roll (keys c) \<and> \<not> rollPressed c \<and> isGrounded c' \<and> \<not> isCrouching c'
         \<and> \<not> dance (keys c) \<and> \<not> isAttacking c \<longrightarrow>
            isRolling c'
            \<and> rollDirection c' = Some (rotationTarget c + characterRotationTarget c)
            \<and> rollSpeed c' = Some (RUN_SPEED (config c) * 1.2)
            \<and> (800, RollEnd) \<in> set (timers c')
            \<and> (\<exists>b' v'. rigidBody c' = Some b' \<and> linvel b' = Some v'
                  \<and> vx v' = sin (rotationTarget c + characterRotationTarget c)
                              * (RUN_SPEED (config c) * 1.2)
                  \<and> vz v' = cos (rotationTarget c + characterRotationTarget c)
                              * (RUN_SPEED (config c) * 1.2)))"
  using update_rolling[OF assms, of d s] update_roll_start[OF assms]
  by blast

theorem roll_velocity_kept_while_grounded_witness:
  "isRolling (rolling_controller floor_world)
   \<and> rollDirection (rolling_controller floor_world) = Some 0
   \<and> rollSpeed (rolling_controller floor_world) = Some 4.8
   \<and> map_sum fst
        (\<lambda>c'. (isGrounded c', isRolling c',
               map_option (\<lambda>b. map_option (\<lambda>v. (vx v, vz v)) (linvel b)) (rigidBody c')))
        (update (Some floor_world) no_bones (1 / 60)
           (handleKeyDown ''w'' (rolling_controller floor_world)))
      = Inr (True, True, Some (Some (0, 4.8)))
   \<and> \<not> isRolling (handleKeyDown ''f'' (standing_controller floor_world))
   \<and> roll (keys (handleKeyDown ''f'' (standing_controller floor_world)))
   \<and> map_sum fst
        (\<lambda>c'. (isGrounded c', isCrouching c', isRolling c', rollDirection c', rollSpeed c',
               map_option (\<lambda>b. map_option (\<lambda>v. (vx v, vz v)) (linvel b)) (rigidBody c')))
        (update (Some floor_world) no_bones (1 / 60)
           (handleKeyDown ''f'' (standing_controller floor_world)))
      = Inr (True, False, True, Some 0, Some 4.8, Some (Some (0, 4.8)))"
proof -
  let ?c = "handleKeyDown ''w'' (rolling_controller floor_world)"
  let ?c' = "locomotion (Some floor_world) no_bones (1 / 60) True True zero_vec3
               (sensed (Some floor_world) no_bones (1 / 60) zero_vec3 True ?c)"
  have b: "rigidBody ?c
     = Some \<lparr>translation = \<lparr>vx = 0, vy = 0.6, vz = 0\<rparr>, linvel = Some zero_vec3\<rparr>"
    by (simp add: rolling_facts)
  have l: "linvel \<lparr>translation = \<lparr>vx = 0, vy = 0.6, vz = 0\<rparr>, linvel = Some zero_vec3\<rparr>
             = Some zero_vec3"
    by simp
  have r: "isRolling ?c \<and> rollDirection ?c = Some 0 \<and> rollSpeed ?c = Some 4.8"
    by (simp add: rolling_facts)
  have gr: "checkGroundedRapier (Some floor_world) ?c = Inr True"
    using rolling_grounded
    by (simp add: checkGroundedRapier_cong[of ?c "rolling_controller floor_world"])
  have h: "(if isCrouching ?c then checkCeilingClearance (Some floor_world) ?c else Inr True)
             = Inr True"
    by (simp add: rolling_facts)
  from update_Inr[OF b l gr h, of no_bones "1 / 60"]
  have u: "update (Some floor_world) no_bones (1 / 60) ?c = Inr ?c'"
    by (simp add: rolling_facts)
  have g: "isGrounded ?c'" by simp
  from roll_velocity_kept_while_grounded[OF u b l, of 0 "4.8"] r g
  obtain b' v' where "isRolling ?c'" "rigidBody ?c' = Some b'" "linvel b' = Some v'"
    "vx v' = sin 0 * 4.8" "vz v' = cos 0 * 4.8"
    by blast
  then have first: "map_option (\<lambda>b. map_option (\<lambda>v. (vx v, vz v)) (linvel b)) (rigidBody ?c')
               = Some (Some (0, 4.8))"
    "isRolling ?c'"
    by simp_all
  let ?k = "handleKeyDown ''f'' (standing_controller floor_world)"
  let ?k' = "locomotion (Some floor_world) no_bones (1 / 60) True True zero_vec3
               (sensed (Some floor_world) no_bones (1 / 60) zero_vec3 True ?k)"
  have bk: "rigidBody ?k
     = Some \<lparr>translation = \<lparr>vx = 0, vy = 1, vz = 0\<rparr>, linvel = Some zero_vec3\<rparr>"
    by (simp add: standing_body)
  have gk: "checkGroundedRapier (Some floor_world) ?k = Inr True"
    using floor_grounded(1)
    by (simp add: checkGroundedRapier_cong[of ?k "standing_controller floor_world"])
  have hk: "(if isCrouching ?k then checkCeilingClearance (Some floor_world) ?k else Inr True)
             = Inr True"
    by (simp add: standing_facts)
  from update_Inr[OF bk standing_linvel gk hk, of no_bones "1 / 60"]
  have uk: "update (Some floor_world) no_bones (1 / 60) ?k = Inr ?k'"
    by (simp add: standing_facts)
  have pk: "\<not> isRolling ?k" "roll (keys ?k)" "\<not> rollPressed ?k" "isGrounded ?k'"
    "\<not> isCrouching ?k'" "\<not> dance (keys ?k)" "\<not> isAttacking ?k"
    by (simp_all add: key_facts standing_facts no_keys_def crouch_logic_def)
  have fk: "rotationTarget ?k + characterRotationTarget ?k = 0"
    "RUN_SPEED (config ?k) * 1.2 = 4.8"
    by (simp_all add: standing_controller_def createPhysicsBody_def new_CharacterController_def
        default_config_def)
  from roll_velocity_kept_while_grounded[OF uk bk standing_linvel, of 0 0] pk
  obtain bs vs where s: "isRolling ?k'"
    "rollDirection ?k' = Some (rotationTarget ?k + characterRotationTarget ?k)"
    "rollSpeed ?k' = Some (RUN_SPEED (config ?k) * 1.2)"
    "rigidBody ?k' = Some bs" "linvel bs = Some vs"
    "vx vs = sin (rotationTarget ?k + characterRotationTarget ?k) * (RUN_SPEED (config ?k) * 1.2)"
    "vz vs = cos (rotationTarget ?k + characterRotationTarget ?k) * (RUN_SPEED (config ?k) * 1.2)"
    by blast
  have second: "rollDirection ?k' = Some 0" "rollSpeed ?k' = Some 4.8"
    "map_option (\<lambda>b. map_option (\<lambda>v. (vx v, vz v)) (linvel b)) (rigidBody ?k')
       = Some (Some (0, 4.8))"
    using s by (simp_all only: fk) simp_all
  have A: "map_sum fst
        (\<lambda>c'. (isGrounded c', isRolling c',
               map_option (\<lambda>b. map_option (\<lambda>v. (vx v, vz v)) (linvel b)) (rigidBody c')))
        (update (Some floor_world) no_bones (1 / 60) ?c)
      = Inr (True, True, Some (Some (0, 4.8)))"
    unfolding u using g first by (simp only: map_sum.simps simp_thms)
  have B: "map_sum fst
        (\<lambda>c'. (isGrounded c', isCrouching c', isRolling c', rollDirection c', rollSpeed c',
               map_option (\<lambda>b. map_option (\<lambda>v. (vx v, vz v)) (linvel b)) (rigidBody c')))
        (update (Some floor_world) no_bones (1 / 60) ?k)
      = Inr (True, False, True, Some 0, Some 4.8, Some (Some (0, 4.8)))"
    unfolding uk using pk(4,5) s(1) second by (simp only: map_sum.simps simp_thms)
  from A B r pk(1,2) show ?thesis by (simp only: rolling_facts simp_thms)
qed

subsection \<open>Jumping and landing\<close>

lemma landing_facts:
  "rigidBody (landing_controller w)
     = Some \<lparr>translation = \<lparr>vx = 0, vy = 1, vz = 0\<rparr>, linvel = Some \<lparr>vx = 1, vy = - 3, vz = 0\<rparr>\<rparr>"
  "\<not> wasGrounded (landing_controller w)"
  "\<not> isRolling (landing_controller w)"
  "\<not> isCrouching (landing_controller w)"
  "\<not> crouchTransitioning (landing_controller w)"
  "\<not> isAttacking (landing_controller w)"
  "\<not> jumpPressed (landing_controller w)"
  "\<not> rollPressed (landing_controller w)"
  "keys (landing_controller w) = no_keys"
  "ceilingClearanceTimer (landing_controller w) = - 1"
  "currentCapsuleHalfHeight (landing_controller w) = 0.7"
  "config (landing_controller w) = default_config"
  by (simp_all add: landing_controller_def standing_controller_def createPhysicsBody_def
      new_CharacterController_def default_config_def)

lemma landing_grounded:
  "checkGroundedRapier (Some floor_world) (landing_controller floor_world) = Inr True"
  by (simp add: checkGroundedRapier_def landing_facts default_config_def floor_cast
      floor_ray_def down_def)

text \<open>
  C5, as stated: on the landing frame with no directional key held, the grounded idle
  damping runs after the landing damping, so the horizontal velocity written is 0.85 * 20%
  = 17% of the pre-land value (here 0.17 for a pre-land 1), not 20%.
\<close>

theorem landing_without_input_counterexample:
  "\<not> wasGrounded (landing_controller floor_world)
   \<and> map_option linvel (rigidBody (landing_controller floor_world))
       = Some (Some \<lparr>vx = 1, vy = - 3, vz = 0\<rparr>)
   \<and> map_sum fst (\<lambda>c'. (isGrounded c', jumpPhase c', map_option linvel (rigidBody c')))
        (update (Some floor_world) no_bones (1 / 60) (landing_controller floor_world))
      = Inr (True, land, Some (Some \<lparr>vx = 0.17, vy = - 3, vz = 0\<rparr>))"
proof -
  let ?c = "landing_controller floor_world"
  let ?v = "\<lparr>vx = 1, vy = - 3, vz = 0\<rparr>"
  let ?c' = "locomotion (Some floor_world) no_bones (1 / 60) True True ?v
               (sensed (Some floor_world) no_bones (1 / 60) ?v True ?c)"
  note b = landing_facts(1)[of floor_world]
  have l: "linvel \<lparr>translation = \<lparr>vx = 0, vy = 1, vz = 0\<rparr>, linvel = Some ?v\<rparr> = Some ?v"
    by simp
  have h: "(if isCrouching ?c then checkCeilingClearance (Some floor_world) ?c else Inr True)
             = Inr True"
    by (simp add: landing_facts)
  from update_Inr[OF b l landing_grounded h, of no_bones "1 / 60"]
  have u: "update (Some floor_world) no_bones (1 / 60) ?c = Inr ?c'"
    by (simp add: landing_facts)
  have g: "isGrounded ?c'" by simp
  have nr: "\<not> isRolling ?c'"
    by (simp add: locomotion_steps_isRolling landing_facts no_keys_def)
  have cr: "isCrouching ?c' = isCrouching ?c"
    by (simp add: landing_facts no_keys_def crouch_logic_def)
  have nj: "\<not> (jump (keys ?c) \<and> \<not> jumpPressed ?c)"
    by (simp add: landing_facts no_keys_def)
  from update_land[OF u b l landing_facts(2) g nr cr nj]
  have "jumpPhase ?c' = land"
    "map_option linvel (rigidBody ?c') = Some (Some \<lparr>vx = 0.17, vy = - 3, vz = 0\<rparr>)"
    by (simp_all add: landing_facts no_keys_def movement_x_def movement_z_def idle_damping_def)
  with u g b landing_facts(2)[of floor_world] show ?thesis by simp
qed

text \<open>
  C5, amended. In a frame where the character is grounded, the jump key is held and
  \<open>jumpPressed\<close> is false, \<open>update\<close> writes the vertical velocity JUMP_FORCE (6 in the
  constructor's configuration, which \<open>update\<close> does not change), sets \<open>jumpPhase\<close> to
  start and schedules, 200 ms later, the change from start to loop. In a frame where
  \<open>wasGrounded\<close> is false and the character is grounded, in which no roll is active or
  starts, the crouch state does not change and no jump is triggered, \<open>jumpPhase\<close> becomes
  land and its return to none is scheduled 300 ms later; the horizontal velocity written is
  20% of the one read when a directional key is held, and otherwise that 20% damped once
  more by the idle damping (times 0.85, and 0 when below 0.01 in magnitude).
\<close>

theorem jump_and_land:
  assumes "update W fr delta c = Inr c'" and "rigidBody c = Some b" and "linvel b = Some v"
  shows "(jump (keys c) \<and> \<not> jumpPressed c \<and> isGrounded c' \<longrightarrow>
            jumpPhase c' = start
            \<and> (200, JumpStartToLoop) \<in> set (timers c')
            \<and> jumpPhase (timeout W (200, JumpStartToLoop) c') = loop
            \<and> (\<exists>b' v'. rigidBody c' = Some b' \<and> linvel b' = Some v'
                  \<and> vy v' = JUMP_FORCE (config c)))
    \<and> JUMP_FORCE (config new_CharacterController) = 6
    \<and> config c' = config c
    \<and> (\<not> wasGrounded c \<and> isGrounded c' \<and> \<not> isRolling c' \<and> isCrouching c' = isCrouching c
         \<and> \<not> (jump (keys c) \<and> \<not> jumpPressed c) \<longrightarrow>
            jumpPhase c' = land
            \<and> (300, JumpLandToNone) \<in> set (timers c')
            \<and> jumpPhase (timeout W (300, JumpLandToNone) c') = none
            \<and> map_option linvel (rigidBody c') =
                Some (Some (if movement_x (keys c) \<noteq> 0 \<or> movement_z (keys c) \<noteq> 0
                            then v\<lparr>vx := vx v * 0.2, vz := vz v * 0.2\<rparr>
                            else idle_damping (v\<lparr>vx := vx v * 0.2, vz := vz v * 0.2\<rparr>))))"
proof -
  have j: "jump (keys c) \<and> \<not> jumpPressed c \<and> isGrounded c' \<longrightarrow>
            jumpPhase c' = start
            \<and> (200, JumpStartToLoop) \<in> set (timers c')
            \<and> jumpPhase (timeout W (200, JumpStartToLoop) c') = loop
            \<and> (\<exists>b' v'. rigidBody c' = Some b' \<and> linvel b' = Some v'
                  \<and> vy v' = JUMP_FORCE (config c))"
    using update_jump[OF assms] by (auto simp add: timeout_jumpPhase)
  have f: "JUMP_FORCE (config new_CharacterController) = 6"
    by (simp add: new_CharacterController_def default_config_def)
  have l: "\<not> wasGrounded c \<and> isGrounded c' \<and> \<not> isRolling c' \<and> isCrouching c' = isCrouching c
         \<and> \<not> (jump (keys c) \<and> \<not> jumpPressed c) \<longrightarrow>
            jumpPhase c' = land
            \<and> (300, JumpLandToNone) \<in> set (timers c')
            \<and> jumpPhase (timeout W (300, JumpLandToNone) c') = none
            \<and> map_option linvel (rigidBody c') =
                Some (Some (if movement_x (keys c) \<noteq> 0 \<or> movement_z (keys c) \<noteq> 0
                            then v\<lparr>vx := vx v * 0.2, vz := vz v * 0.2\<rparr>
                            else idle_damping (v\<lparr>vx := vx v * 0.2, vz := vz v * 0.2\<rparr>)))"
    using update_land[OF assms] by (auto simp add: timeout_jumpPhase)
  from j f l update_steps_fields(7)[OF assms] show ?thesis by blast
qed

theorem jump_and_land_witness:
  "map_sum fst
     (\<lambda>c'. (isGrounded c', jumpPhase c',
            jumpPhase (timeout (Some floor_world) (200, JumpStartToLoop) c'),
            map_option (\<lambda>b. map_option vy (linvel b)) (rigidBody c')))
     (update (Some floor_world) no_bones (1 / 60)
        (handleKeyDown '' '' (standing_controller floor_world)))
    = Inr (True, start, loop, Some (Some 6))
   \<and> map_sum fst
     (\<lambda>c'. (isGrounded c', jumpPhase c',
            jumpPhase (timeout (Some floor_world) (300, JumpLandToNone) c'),
            map_option linvel (rigidBody c')))
     (update (Some floor_world) no_bones (1 / 60)
        (handleKeyDown ''w'' (landing_controller floor_world)))
    = Inr (True, land, none, Some (Some \<lparr>vx = 0.2, vy = - 3, vz = 0\<rparr>))"
proof -
  let ?W = "Some floor_world"
  let ?cj = "handleKeyDown '' '' (standing_controller floor_world)"
  let ?cj' = "locomotion ?W no_bones (1 / 60) True True zero_vec3
               (sensed ?W no_bones (1 / 60) zero_vec3 True ?cj)"
  let ?v = "\<lparr>vx = 1, vy = - 3, vz = 0\<rparr>"
  let ?cl = "handleKeyDown ''w'' (landing_controller floor_world)"
  let ?cl' = "locomotion ?W no_bones (1 / 60) True True ?v
               (sensed ?W no_bones (1 / 60) ?v True ?cl)"
  have bj: "rigidBody ?cj
     = Some \<lparr>translation = \<lparr>vx = 0, vy = 1, vz = 0\<rparr>, linvel = Some zero_vec3\<rparr>"
    by (simp add: standing_body)
  have gj: "checkGroundedRapier ?W ?cj = Inr True"
    using floor_grounded(1)
    by (simp add: checkGroundedRapier_cong[of ?cj "standing_controller floor_world"])
  have hj: "(if isCrouching ?cj then checkCeilingClearance ?W ?cj else Inr True) = Inr True"
    by (simp add: standing_facts)
  from update_Inr[OF bj standing_linvel gj hj, of no_bones "1 / 60"]
  have uj: "update ?W no_bones (1 / 60) ?cj = Inr ?cj'"
    by (simp add: standing_facts)
  have pj: "jump (keys ?cj) \<and> \<not> jumpPressed ?cj \<and> isGrounded ?cj'"
    by (simp add: key_facts standing_facts)
  from jump_and_land[OF uj bj standing_linvel] pj
  obtain b' v' where j: "jumpPhase ?cj' = start"
    "jumpPhase (timeout ?W (200, JumpStartToLoop) ?cj') = loop"
    "rigidBody ?cj' = Some b'" "linvel b' = Some v'" "vy v' = JUMP_FORCE (config ?cj)"
    by blast
  have "JUMP_FORCE (config ?cj) = 6"
    by (simp add: standing_facts default_config_def)
  with j have j': "map_option (\<lambda>b. map_option vy (linvel b)) (rigidBody ?cj') = Some (Some 6)"
    by simp
  have bl: "rigidBody ?cl
     = Some \<lparr>translation = \<lparr>vx = 0, vy = 1, vz = 0\<rparr>, linvel = Some ?v\<rparr>"
    by (simp add: landing_facts)
  have ll: "linvel \<lparr>translation = \<lparr>vx = 0, vy = 1, vz = 0\<rparr>, linvel = Some ?v\<rparr> = Some ?v"
    by simp
  have gl: "checkGroundedRapier ?W ?cl = Inr True"
    using landing_grounded
    by (simp add: checkGroundedRapier_cong[of ?cl "landing_controller floor_world"])
  have hl: "(if isCrouching ?cl then checkCeilingClearance ?W ?cl else Inr True) = Inr True"
    by (simp add: landing_facts)
  from update_Inr[OF bl ll gl hl, of no_bones "1 / 60"]
  have ul: "update ?W no_bones (1 / 60) ?cl = Inr ?cl'"
    by (simp add: landing_facts)
  have pl: "\<not> wasGrounded ?cl \<and> isGrounded ?cl' \<and> \<not> isRolling ?cl'
      \<and> isCrouching ?cl' = isCrouching ?cl \<and> \<not> (jump (keys ?cl) \<and> \<not> jumpPressed ?cl)"
    by (simp add: locomotion_steps_isRolling landing_facts key_facts no_keys_def crouch_logic_def)
  from jump_and_land[OF ul bl ll] pl
  have l: "jumpPhase ?cl' = land"
    "jumpPhase (timeout ?W (300, JumpLandToNone) ?cl') = none"
    "map_option linvel (rigidBody ?cl') =
       Some (Some (if movement_x (keys ?cl) \<noteq> 0 \<or> movement_z (keys ?cl) \<noteq> 0
                   then ?v\<lparr>vx := vx ?v * 0.2, vz := vz ?v * 0.2\<rparr>
                   else idle_damping (?v\<lparr>vx := vx ?v * 0.2, vz := vz ?v * 0.2\<rparr>)))"
    by blast+
  have "movement_z (keys ?cl) = 1"
    by (simp add: key_facts landing_facts no_keys_def movement_z_def)
  with l(3) have l': "map_option linvel (rigidBody ?cl') = Some (Some \<lparr>vx = 0.2, vy = - 3, vz = 0\<rparr>)"
    by simp
  from uj j(1,2) j' ul l(1,2) l' show ?thesis by simp
qed

subsection \<open>Rolling and jumping in one frame\<close>

text \<open>
  C10. The claim: no reachable state is both rolling and in jump phase start or loop. The
  jump trigger has no test of \<open>isRolling\<close> (the falling detection has one, and the roll
  trigger resets \<open>jumpPhase\<close>): with the roll key and the jump key both pressed before a
  frame in which the character stands on the floor, \<open>update\<close> starts the roll and then
  sets \<open>jumpPhase\<close> to start.
\<close>

theorem rolling_and_jumping_together:
  "map_sum fst (\<lambda>c. (isRolling c, jumpPhase c))
     (run (Some floor_world) (standing_controller floor_world)
        [KeyDown ''f'', KeyDown '' '', Frame no_bones (1 / 60)])
   = Inr (True, start)"
proof -
  let ?W = "Some floor_world"
  let ?c = "handleKeyDown '' '' (handleKeyDown ''f'' (standing_controller floor_world))"
  let ?c' = "locomotion ?W no_bones (1 / 60) True True zero_vec3
               (sensed ?W no_bones (1 / 60) zero_vec3 True ?c)"
  have b: "rigidBody ?c
     = Some \<lparr>translation = \<lparr>vx = 0, vy = 1, vz = 0\<rparr>, linvel = Some zero_vec3\<rparr>"
    by (simp add: standing_body)
  have g: "checkGroundedRapier ?W ?c = Inr True"
    using floor_grounded(1)
    by (simp add: checkGroundedRapier_cong[of ?c "standing_controller floor_world"])
  have h: "(if isCrouching ?c then checkCeilingClearance ?W ?c else Inr True) = Inr True"
    by (simp add: standing_facts)
  from update_Inr[OF b standing_linvel g h, of no_bones "1 / 60"]
  have u: "update ?W no_bones (1 / 60) ?c = Inr ?c'"
    by (simp add: standing_facts)
  have k: "jump (keys ?c)" "\<not> jumpPressed ?c" "isGrounded ?c'"
    by (simp_all add: key_facts standing_facts)
  from update_jump[OF u b standing_linvel k] have j: "jumpPhase ?c' = start" by simp
  have r: "isRolling ?c'"
    by (simp add: locomotion_steps_isRolling key_facts standing_facts no_keys_def crouch_logic_def)
  from u j r show ?thesis by simp
qed

subsection \<open>The capsule across a frame\<close>

lemma updateCapsuleCollider_half:
  assumes "rigidBody c \<noteq> None" and "collider c \<noteq> None"
  shows "currentCapsuleHalfHeight (updateCapsuleCollider (Some w) t c) =
           (if \<bar>currentCapsuleHalfHeight c - t\<bar> < 0.01 then currentCapsuleHalfHeight c else t)"
  using assms by (auto simp add: updateCapsuleCollider_def Let_def)

lemma updateCapsuleCollider_collider:
  "collider (updateCapsuleCollider W t c) = None \<longleftrightarrow> collider c = None"
  by (simp add: updateCapsuleCollider_def Let_def split: option.splits)

lemma roll_input_capsule:
  assumes "rigidBody (fst cv) \<noteq> None" and "collider (fst cv) \<noteq> None"
  shows "currentCapsuleHalfHeight (fst (roll_input (Some w) g s cv)) =
           (if roll (keys (fst cv)) \<and> \<not> rollPressed (fst cv) \<and> g \<and> \<not> s
                \<and> \<not> dance (keys (fst cv)) \<and> \<not> isAttacking (fst cv) \<and> \<not> isRolling (fst cv)
               \<and> \<not> \<bar>currentCapsuleHalfHeight (fst cv) - capsuleRadius (config (fst cv))\<bar> < 0.01
            then capsuleRadius (config (fst cv))
            else currentCapsuleHalfHeight (fst cv))"
  using assms
  by (cases cv) (simp add: roll_input_def Let_def updateCapsuleCollider_half)

lemma roll_input_collider:
  "collider (fst (roll_input W g s cv)) = None \<longleftrightarrow> collider (fst cv) = None"
  by (cases cv) (simp add: roll_input_def Let_def updateCapsuleCollider_collider)

lemma crouch_state_change_capsule:
  assumes "rigidBody c \<noteq> None" and "collider c \<noteq> None"
  shows "currentCapsuleHalfHeight (crouch_state_change (Some w) s c) =
           (if s \<noteq> isCrouching c
               \<and> \<not> \<bar>currentCapsuleHalfHeight c
                      - (if s then capsuleHeight (config c) * 0.5 / 2
                         else capsuleHeight (config c) / 2)\<bar> < 0.01
            then (if s then capsuleHeight (config c) * 0.5 / 2 else capsuleHeight (config c) / 2)
            else currentCapsuleHalfHeight c)"
  using assms
  by (simp add: crouch_state_change_def Let_def updateCapsuleCollider_half)

lemma crouch_state_change_collider:
  "collider (crouch_state_change W s c) = None \<longleftrightarrow> collider c = None"
  by (simp add: crouch_state_change_def Let_def updateCapsuleCollider_collider)

lemma locomotion_steps_collider:
  "collider (fst (locomotion_steps W fr delta g h v c)) = None \<longleftrightarrow> collider c = None"
  by (simp add: locomotion_steps_def Let_def crouch_state_change_collider roll_input_collider)

lemma locomotion_steps_capsule:
  assumes "rigidBody c \<noteq> None" and "collider c \<noteq> None"
  shows "currentCapsuleHalfHeight (fst (locomotion_steps (Some w) fr delta g h v c)) =
     (let s = snd (crouch_logic (crouch (keys c)) (isCrouching c) h (ceilingClearanceTimer c) delta);
          h1 = (if roll (keys c) \<and> \<not> rollPressed c \<and> g \<and> \<not> s \<and> \<not> dance (keys c)
                   \<and> \<not> isAttacking c \<and> \<not> isRolling c
                   \<and> \<not> \<bar>currentCapsuleHalfHeight c - capsuleRadius (config c)\<bar> < 0.01
                then capsuleRadius (config c) else currentCapsuleHalfHeight c);
          t = (if s then capsuleHeight (config c) * 0.5 / 2 else capsuleHeight (config c) / 2)
      in if s \<noteq> isCrouching c \<and> \<not> \<bar>h1 - t\<bar> < 0.01 then t else h1)"
proof -
  define cl where "cl = crouch_logic (crouch (keys c)) (isCrouching c) h (ceilingClearanceTimer c) delta"
  define c1 where "c1 = c\<lparr>ceilingClearanceTimer := fst cl\<rparr>"
  define l where "l = landing_detection (Some w) fr g (c1, v)"
  define r where "r = roll_input (Some w) g (snd cl) l"
  define c2 where "c2 = falling_detection g (snd cl) (fst r)"
  define c3 where "c3 = c2\<lparr>wasGrounded := g\<rparr>"
  define c4 where "c4 = (if dance (keys c3) then setAnimation ''dance'' c3 else c3)"
  define c5 where "c5 = crouch_state_change (Some w) (snd cl) c4"
  have m: "locomotion_steps (Some w) fr delta g h v c = movement_input g (snd cl) (c5, snd r)"
    by (simp add: locomotion_steps_def Let_def cl_def c1_def l_def r_def c2_def c3_def c4_def c5_def)
  have pl: "rigidBody (fst l) \<noteq> None" "collider (fst l) \<noteq> None"
    using assms by (simp_all add: l_def c1_def)
  have hr: "currentCapsuleHalfHeight (fst r) =
      (if roll (keys c) \<and> \<not> rollPressed c \<and> g \<and> \<not> snd cl \<and> \<not> dance (keys c)
                   \<and> \<not> isAttacking c \<and> \<not> isRolling c
                   \<and> \<not> \<bar>currentCapsuleHalfHeight c - capsuleRadius (config c)\<bar> < 0.01
                then capsuleRadius (config c) else currentCapsuleHalfHeight c)"
    unfolding r_def roll_input_capsule[OF pl] by (simp add: l_def c1_def)
  have p4: "rigidBody c4 \<noteq> None" "collider c4 \<noteq> None"
    using pl roll_input_body[of "Some w" g "snd cl" l] roll_input_collider[of "Some w" g "snd cl" l]
    by (auto simp add: c4_def c3_def c2_def r_def)
  have f4: "currentCapsuleHalfHeight c4 = currentCapsuleHalfHeight (fst r)"
    "isCrouching c4 = isCrouching c" "config c4 = config c"
    by (simp_all add: c4_def c3_def c2_def r_def l_def c1_def)
  have "currentCapsuleHalfHeight (fst (locomotion_steps (Some w) fr delta g h v c))
          = currentCapsuleHalfHeight c5"
    by (simp add: m)
  also have "\<dots> = (if snd cl \<noteq> isCrouching c
               \<and> \<not> \<bar>currentCapsuleHalfHeight (fst r)
                      - (if snd cl then capsuleHeight (config c) * 0.5 / 2
                         else capsuleHeight (config c) / 2)\<bar> < 0.01
            then (if snd cl then capsuleHeight (config c) * 0.5 / 2 else capsuleHeight (config c) / 2)
            else currentCapsuleHalfHeight (fst r))"
    unfolding c5_def crouch_state_change_capsule[OF p4] by (simp add: f4)
  finally show ?thesis
    by (simp add: hr Let_def cl_def)
qed

subsection \<open>The end of a roll\<close>

lemma floor_no_throw: "\<exists>g. checkGroundedRapier (Some floor_world) c = Inr g"
  by (auto simp add: checkGroundedRapier_def floor_cast floor_ray_def Let_def split: option.splits)

lemma timeout_RollEnd:
  assumes "rigidBody c \<noteq> None" and "collider c \<noteq> None"
  shows "isRolling (timeout (Some w) (ms, RollEnd) c) = False"
    and "isCrouching (timeout (Some w) (ms, RollEnd) c) = isCrouching c"
    and "keys (timeout (Some w) (ms, RollEnd) c) = keys c"
    and "currentCapsuleHalfHeight (timeout (Some w) (ms, RollEnd) c) =
           (if \<bar>currentCapsuleHalfHeight c - capsuleHeight (config c) / 2\<bar> < 0.01
            then currentCapsuleHalfHeight c else capsuleHeight (config c) / 2)"
  using assms by (simp_all add: timeout_def Let_def updateCapsuleCollider_half)

lemma crouch_during_roll_capsule:
  assumes "rigidBody S \<noteq> None" and "collider S \<noteq> None" and "isRolling S"
    and "\<not> isCrouching S" and "crouch (keys S)" and "currentCapsuleHalfHeight S = 0.3"
    and "config S = default_config"
  shows "currentCapsuleHalfHeight (fst (locomotion_steps (Some w) fr delta g h v S)) = 0.35"
  using assms(3-7)
  by (simp add: locomotion_steps_capsule[OF assms(1,2)] Let_def crouch_logic_def
      default_config_def)

text \<open>
  C9. The claim: each timed reversion checks, when it fires, that the state it reverts is
  still the one that scheduled it, and otherwise changes nothing. The two \<open>jumpPhase\<close>
  callbacks do; the roll-end callback tests nothing: it clears the roll and resizes the
  capsule to the standing height whatever has happened since. Here the roll starts, the
  crouch key is pressed during the roll (the capsule takes the crouch half height 0.35), and
  when the roll-end timer fires the capsule is given the standing half height 0.7 although
  the character is still crouching with the crouch key held.
\<close>

theorem roll_end_clobbers_crouch_capsule:
  "map_sum fst (\<lambda>c. (isRolling c, isCrouching c, crouch (keys c), currentCapsuleHalfHeight c))
     (run (Some floor_world) (standing_controller floor_world)
        [KeyDown ''f'', Frame no_bones (1 / 60), KeyDown ''control'', Frame no_bones (1 / 60)])
   = Inr (True, True, True, 0.35)
   \<and> map_sum fst (\<lambda>c. (isRolling c, isCrouching c, crouch (keys c), currentCapsuleHalfHeight c))
     (run (Some floor_world) (standing_controller floor_world)
        [KeyDown ''f'', Frame no_bones (1 / 60), KeyDown ''control'', Frame no_bones (1 / 60),
         Timeout (800, RollEnd)])
   = Inr (False, True, True, 0.7)"
proof -
  let ?W = "Some floor_world"
  let ?d = "1 / 60 :: real"
  let ?c0 = "handleKeyDown ''f'' (standing_controller floor_world)"
  let ?S0 = "sensed ?W no_bones ?d zero_vec3 True ?c0"
  let ?s1 = "locomotion ?W no_bones ?d True True zero_vec3 ?S0"
  have b0: "rigidBody ?c0
     = Some \<lparr>translation = \<lparr>vx = 0, vy = 1, vz = 0\<rparr>, linvel = Some zero_vec3\<rparr>"
    by (simp add: standing_body)
  have g0: "checkGroundedRapier ?W ?c0 = Inr True"
    using floor_grounded(1)
    by (simp add: checkGroundedRapier_cong[of ?c0 "standing_controller floor_world"])
  have h0: "(if isCrouching ?c0 then checkCeilingClearance ?W ?c0 else Inr True) = Inr True"
    by (simp add: standing_facts)
  from update_Inr[OF b0 standing_linvel g0 h0, of no_bones ?d]
  have u1: "update ?W no_bones ?d ?c0 = Inr ?s1"
    by (simp add: standing_facts)
  have p0: "rigidBody ?S0 \<noteq> None" "collider ?S0 \<noteq> None"
    by (simp_all add: standing_body standing_controller_def createPhysicsBody_def)
  have r1: "isRolling ?s1"
    by (simp add: locomotion_steps_isRolling key_facts standing_facts no_keys_def crouch_logic_def)
  have cr1: "\<not> isCrouching ?s1"
    by (simp add: key_facts standing_facts no_keys_def crouch_logic_def)
  have h1: "currentCapsuleHalfHeight ?s1 = 0.3"
    by (simp add: locomotion_steps_capsule[OF p0] Let_def key_facts standing_facts no_keys_def
        crouch_logic_def default_config_def)
  have col1: "collider ?s1 \<noteq> None"
    using p0(2) by (simp add: locomotion_steps_collider)
  have cf1: "config ?s1 = default_config"
    by (simp add: standing_facts)
  have "roll (keys ?S0)" "\<not> rollPressed ?S0" "\<not> dance (keys ?S0)" "\<not> isAttacking ?S0"
    "\<not> isRolling ?S0"
    "\<not> snd (crouch_logic (crouch (keys ?S0)) (isCrouching ?S0) True (ceilingClearanceTimer ?S0) ?d)"
    by (simp_all add: key_facts standing_facts no_keys_def crouch_logic_def)
  from locomotion_steps_roll_start[OF this(1,2) TrueI this(6,3,4,5), of ?W no_bones zero_vec3]
  have t1: "(800, RollEnd) \<in> set (timers ?s1)"
    by simp
  from locomotion_body[of ?S0 _ ?W no_bones ?d True True zero_vec3] p0(1)
  obtain b1 where b1: "rigidBody ?s1 = Some b1" and "\<exists>v. linvel b1 = Some v"
    by auto
  then obtain v1 where v1: "linvel b1 = Some v1" by blast
  let ?c1 = "handleKeyDown ''control'' ?s1"
  obtain g1 where g1: "checkGroundedRapier ?W ?c1 = Inr g1"
    using floor_no_throw by blast
  let ?G = "crouchTransitioning ?c1 \<or> g1"
  let ?S1 = "sensed ?W no_bones ?d v1 ?G ?c1"
  let ?s2 = "locomotion ?W no_bones ?d ?G True v1 ?S1"
  have bc1: "rigidBody ?c1 = Some b1" using b1 by simp
  have hc1: "(if isCrouching ?c1 then checkCeilingClearance ?W ?c1 else Inr True) = Inr True"
    using cr1 by simp
  from update_Inr[OF bc1 v1 g1 hc1, of no_bones ?d]
  have u2: "update ?W no_bones ?d ?c1 = Inr ?s2" .
  have p1: "rigidBody ?S1 \<noteq> None" "collider ?S1 \<noteq> None"
    using b1 col1 by simp_all
  have rS1: "isRolling ?S1" using r1 by simp
  have r2: "isRolling ?s2"
    using locomotion_steps_rolling[OF rS1, of ?W no_bones ?d ?G True v1] by simp
  have cr2: "isCrouching ?s2"
    by (simp add: key_facts crouch_logic_def)
  have k2: "crouch (keys ?s2)"
    by (simp add: key_facts)
  have S1: "isRolling ?S1" "\<not> isCrouching ?S1" "crouch (keys ?S1)"
    "currentCapsuleHalfHeight ?S1 = 0.3" "config ?S1 = default_config"
    using r1 cr1 h1 cf1 by (simp_all add: key_facts)
  have h2: "currentCapsuleHalfHeight ?s2 = 0.35"
    using crouch_during_roll_capsule[OF p1 S1, of floor_world no_bones ?d ?G True v1]
    by (simp only: locomotion_fields)
  have col2: "collider ?s2 \<noteq> None"
    using p1(2) by (simp add: locomotion_steps_collider)
  have bd2: "rigidBody ?s2 \<noteq> None"
    using locomotion_body[of ?S1 b1 ?W no_bones ?d ?G True v1] b1 by auto
  have cf2: "config ?s2 = default_config"
    using cf1 by simp
  have t2: "(800, RollEnd) \<in> set (timers ?s2)"
    using t1 locomotion_steps_timers_mono[of ?S1 ?W no_bones ?d ?G True v1] by auto
  have run4: "run ?W (standing_controller floor_world)
        [KeyDown ''f'', Frame no_bones ?d, KeyDown ''control'', Frame no_bones ?d] = Inr ?s2"
    by (simp add: u1 u2)
  have run5: "run ?W (standing_controller floor_world)
        [KeyDown ''f'', Frame no_bones ?d, KeyDown ''control'', Frame no_bones ?d,
         Timeout (800, RollEnd)] = Inr (timeout ?W (800, RollEnd) ?s2)"
    using t2 by (simp add: u1 u2)
  note te = timeout_RollEnd[OF bd2 col2, of floor_world 800]
  have e1: "\<not> isRolling (timeout ?W (800, RollEnd) ?s2)"
    by (simp only: te(1)) simp
  have e2: "isCrouching (timeout ?W (800, RollEnd) ?s2)"
    using cr2 by (simp only: te(2))
  have e3: "crouch (keys (timeout ?W (800, RollEnd) ?s2))"
    using k2 by (simp only: te(3))
  have e4: "currentCapsuleHalfHeight (timeout ?W (800, RollEnd) ?s2) = 0.7"
    by (simp only: te(4) h2 cf2) (simp add: default_config_def)
  have A: "(isRolling ?s2, isCrouching ?s2, crouch (keys ?s2), currentCapsuleHalfHeight ?s2)
             = (True, True, True, 0.35)"
    using r2 cr2 k2 h2 by (simp only: simp_thms)
  have B: "(isRolling (timeout ?W (800, RollEnd) ?s2), isCrouching (timeout ?W (800, RollEnd) ?s2),
            crouch (keys (timeout ?W (800, RollEnd) ?s2)),
            currentCapsuleHalfHeight (timeout ?W (800, RollEnd) ?s2))
             = (False, True, True, 0.7)"
    using e1 e2 e3 e4 by (simp only: simp_thms)
  show ?thesis
    unfolding run4 run5 using A B by (simp only: map_sum.simps simp_thms)
qed


end
